theory Spec2Isabelle
  imports Main "HOL-Library.Word"
begin

section \<open>The Icebreaker Bot web interface (icebreaker-bot/app.py)\<close>

text \<open>
  The file wires two request handlers, \<^verbatim>\<open>process_profile\<close> and
  \<^verbatim>\<open>chat_with_profile\<close>, around functions of the packages
  \<^verbatim>\<open>modules\<close> and \<^verbatim>\<open>config\<close> and around the module-level dictionary
  \<^verbatim>\<open>active_indices\<close>. The functions of \<^verbatim>\<open>modules\<close> are not part of the
  file: they are parameters of the model. Each of them may read and change the world
  outside the handlers (the network, the language model, \<^verbatim>\<open>config\<close>), and each
  of them may raise.
\<close>

subsection \<open>Python values\<close>

text \<open>
  An exception of class \<^verbatim>\<open>Exception\<close>, which is what the \<^verbatim>\<open>except\<close> clauses of
  the handlers catch, carrying \<^verbatim>\<open>str(e)\<close>.
\<close>

datatype pyexc = PyException string

fun str_exc :: "pyexc \<Rightarrow> string" where
  "str_exc (PyException msg) = msg"

text \<open>
  A value that is \<^verbatim>\<open>None\<close> or a \<^verbatim>\<open>str\<close> is a \<open>string option\<close>;
  \<^verbatim>\<open>not x\<close> holds of \<^verbatim>\<open>None\<close> and of the empty string.
\<close>

definition truthy_str :: "string option \<Rightarrow> bool" where
  "truthy_str x = (case x of None \<Rightarrow> False | Some s \<Rightarrow> s \<noteq> [])"

text \<open>
  \<^verbatim>\<open>str.isspace\<close> on the code points below 256, and \<^verbatim>\<open>str.strip()\<close>,
  which drops the white space at both ends.
\<close>

definition py_isspace :: "char \<Rightarrow> bool" where
  "py_isspace c = ((of_char c :: nat) \<in> {9, 10, 11, 12, 13, 28, 29, 30, 31, 32, 133, 160})"

definition strip :: "string \<Rightarrow> string" where
  "strip s = rev (dropWhile py_isspace (rev (dropWhile py_isspace s)))"

text \<open>
  \<^verbatim>\<open>str(uuid.uuid4())\<close>: the 128 bits of the identifier as 32 lower-case
  hexadecimal digits, in groups of 8, 4, 4, 4 and 12 joined by hyphens.
\<close>

definition hexdigit :: "nat \<Rightarrow> char" where
  "hexdigit d = ''0123456789abcdef'' ! (d mod 16)"

definition hex32 :: "128 word \<Rightarrow> string" where
  "hex32 u = map (\<lambda>k. hexdigit (unat u div 16 ^ (31 - k))) [0..<32]"

definition str_uuid :: "128 word \<Rightarrow> string" where
  "str_uuid u =
     (let hex = hex32 u
      in take 8 hex @ ''-'' @ take 4 (drop 8 hex) @ ''-'' @ take 4 (drop 12 hex) @ ''-''
         @ take 4 (drop 16 hex) @ ''-'' @ drop 20 hex)"

subsection \<open>The imported functions and the state\<close>

text \<open>
  The functions the file imports, as parameters: \<open>'w\<close> is the world they act on,
  \<open>'p\<close> the profile data, \<open>'n\<close> the nodes, \<open>'i\<close> the index and \<open>'r\<close> the
  response object of the query engine. A call returns \<open>Inl e\<close> when it raises
  \<open>e\<close>. The truth value Python gives to a profile, to the nodes and to an index
  (\<^verbatim>\<open>not profile_data\<close>) belongs to those types. \<open>response\<close> reads the attribute
  \<^verbatim>\<open>response.response\<close>; the text that \<^verbatim>\<open>{facts}\<close> formats to is the value
  of \<open>generate_initial_facts\<close>.
\<close>

record ('w, 'p, 'n, 'i, 'r) modules =
  LLM_MODEL_ID :: "'w \<Rightarrow> string"
  change_llm_model :: "string \<Rightarrow> 'w \<Rightarrow> (pyexc + unit) \<times> 'w"
  extract_linkedin_profile ::
    "string option \<Rightarrow> string option \<Rightarrow> bool \<Rightarrow> 'w \<Rightarrow> (pyexc + 'p) \<times> 'w"
  split_profile_data :: "'p \<Rightarrow> 'w \<Rightarrow> (pyexc + 'n) \<times> 'w"
  create_vector_database :: "'n \<Rightarrow> 'w \<Rightarrow> (pyexc + 'i) \<times> 'w"
  verify_embeddings :: "'i \<Rightarrow> 'w \<Rightarrow> (pyexc + bool) \<times> 'w"
  generate_initial_facts :: "'i \<Rightarrow> 'w \<Rightarrow> (pyexc + string) \<times> 'w"
  answer_user_query :: "'i \<Rightarrow> string \<Rightarrow> 'w \<Rightarrow> (pyexc + 'r) \<times> 'w"
  response :: "'r \<Rightarrow> pyexc + string"
  uuid4 :: "'w \<Rightarrow> 128 word \<times> 'w"
  truthy_profile :: "'p \<Rightarrow> bool"
  truthy_nodes :: "'n \<Rightarrow> bool"
  truthy_index :: "'i \<Rightarrow> bool"

text \<open>
  One entry of the log of what a handler did outside itself: a call of an imported
  function with its arguments and what it returned or raised, or a message given to the
  logger.
\<close>

datatype ('p, 'n, 'i, 'r) call =
    ChangeLlmModel string "pyexc + unit"
  | ExtractLinkedinProfile "string option" "string option" bool "pyexc + 'p"
  | SplitProfileData 'p "pyexc + 'n"
  | CreateVectorDatabase 'n "pyexc + 'i"
  | VerifyEmbeddings 'i "pyexc + bool"
  | GenerateInitialFacts 'i "pyexc + string"
  | Uuid4 "128 word"
  | AnswerUserQuery 'i string "pyexc + 'r"
  | LoggerWarning string
  | LoggerError string

text \<open>
  The state the handlers run in: the world of the imported functions, the dictionary
  \<^verbatim>\<open>active_indices\<close> from session identifiers to indices, and the log.
\<close>

record ('w, 'p, 'n, 'i, 'r) state =
  world :: 'w
  active_indices :: "string \<rightharpoonup> 'i"
  calls :: "('p, 'n, 'i, 'r) call list"

text \<open>A piece of a handler: it runs in a state and returns a value or raises.\<close>

type_synonym ('s, 'a) prog = "'s \<Rightarrow> (pyexc + 'a) \<times> 's"

definition returnp :: "'a \<Rightarrow> ('s, 'a) prog" where
  "returnp x s = (Inr x, s)"

definition bindp :: "('s, 'a) prog \<Rightarrow> ('a \<Rightarrow> ('s, 'b) prog) \<Rightarrow> ('s, 'b) prog" where
  "bindp m f s = (case m s of (Inl e, s') \<Rightarrow> (Inl e, s') | (Inr x, s') \<Rightarrow> f x s')"

text \<open>\<^verbatim>\<open>try: m except Exception as e: h e\<close>\<close>

definition try_except :: "('s, 'a) prog \<Rightarrow> (pyexc \<Rightarrow> ('s, 'a) prog) \<Rightarrow> ('s, 'a) prog" where
  "try_except m h s = (case m s of (Inl e, s') \<Rightarrow> h e s' | (Inr x, s') \<Rightarrow> (Inr x, s'))"

text \<open>
  A call of an imported function \<open>f\<close>: it acts on the world, and the log gets the
  entry \<open>c\<close> applied to what the call returned or raised.
\<close>

definition external ::
  "((pyexc + 'a) \<Rightarrow> ('p, 'n, 'i, 'r) call) \<Rightarrow> ('w \<Rightarrow> (pyexc + 'a) \<times> 'w)
    \<Rightarrow> (('w, 'p, 'n, 'i, 'r) state, 'a) prog" where
  "external c f s =
     (case f (world s) of
        (r, w') \<Rightarrow> (r, s\<lparr>world := w', calls := calls s @ [c r]\<rparr>))"

definition logger ::
  "('p, 'n, 'i, 'r) call \<Rightarrow> (('w, 'p, 'n, 'i, 'r) state, unit) prog" where
  "logger c s = (Inr (), s\<lparr>calls := calls s @ [c]\<rparr>)"

text \<open>\<^verbatim>\<open>str(uuid.uuid4())\<close>\<close>

definition new_session_id ::
  "('w, 'p, 'n, 'i, 'r) modules \<Rightarrow> (('w, 'p, 'n, 'i, 'r) state, string) prog" where
  "new_session_id M s =
     (case uuid4 M (world s) of
        (u, w') \<Rightarrow> (Inr (str_uuid u), s\<lparr>world := w', calls := calls s @ [Uuid4 u]\<rparr>))"

text \<open>\<^verbatim>\<open>active_indices[session_id] = index\<close>\<close>

definition store_index ::
  "string \<Rightarrow> 'i \<Rightarrow> (('w, 'p, 'n, 'i, 'r) state, unit) prog" where
  "store_index session_id index s =
     (Inr (), s\<lparr>active_indices := (active_indices s)(session_id \<mapsto> index)\<rparr>)"

text \<open>
  \<^verbatim>\<open>session_id in active_indices\<close> and \<^verbatim>\<open>active_indices[session_id]\<close>; the keys
  of the dictionary are strings, so \<^verbatim>\<open>None\<close> is not among them, and reading a key
  that is missing raises \<^verbatim>\<open>KeyError\<close>.
\<close>

definition has_session :: "string option \<Rightarrow> (string \<rightharpoonup> 'i) \<Rightarrow> bool" where
  "has_session session_id d =
     (case session_id of None \<Rightarrow> False | Some k \<Rightarrow> d k \<noteq> None)"

definition get_index ::
  "string option \<Rightarrow> (('w, 'p, 'n, 'i, 'r) state, 'i) prog" where
  "get_index session_id s =
     (case session_id of
        None \<Rightarrow> (Inl (PyException ''None''), s)
      | Some k \<Rightarrow>
          (case active_indices s k of
             None \<Rightarrow> (Inl (PyException ([CHR 0x27] @ k @ [CHR 0x27])), s)
           | Some index \<Rightarrow> (Inr index, s)))"

subsection \<open>process\_profile\<close>

definition default_url :: string where
  "default_url = ''https://www.linkedin.com/in/leonkatsnelson/''"

definition success_message :: "string \<Rightarrow> string" where
  "success_message facts =
     ''Profile processed successfully!'' @ [CHR 0x0A, CHR 0x0A]
     @ ''Here are 3 interesting facts about this person:'' @ [CHR 0x0A, CHR 0x0A] @ facts"

definition no_profile_data :: string where
  "no_profile_data = ''Failed to retrieve profile data. Please check the URL or API key.''"

definition no_nodes :: string where
  "no_nodes = ''Failed to process profile data into nodes.''"

definition no_index :: string where
  "no_index = ''Failed to create vector database.''"

text \<open>The body of the \<^verbatim>\<open>try\<close> block, lines 42 to 86.\<close>

definition process_profile_body ::
  "('w, 'p, 'n, 'i, 'r) modules \<Rightarrow> string option \<Rightarrow> string option \<Rightarrow> bool \<Rightarrow> string
    \<Rightarrow> (('w, 'p, 'n, 'i, 'r) state, string \<times> string option) prog" where
  "process_profile_body M linkedin_url api_key use_mock selected_model =
     bindp (\<lambda>s. if selected_model \<noteq> LLM_MODEL_ID M (world s)
                then external (ChangeLlmModel selected_model)
                       (change_llm_model M selected_model) s
                else returnp () s) (\<lambda>_.
     let linkedin_url =
           (if use_mock \<and> \<not> truthy_str linkedin_url then Some default_url else linkedin_url);
         key = (if \<not> use_mock then api_key else None)
     in
     bindp (external (ExtractLinkedinProfile linkedin_url key use_mock)
              (extract_linkedin_profile M linkedin_url key use_mock)) (\<lambda>profile_data.
     if \<not> truthy_profile M profile_data then returnp (no_profile_data, None) else
     bindp (external (SplitProfileData profile_data)
              (split_profile_data M profile_data)) (\<lambda>nodes.
     if \<not> truthy_nodes M nodes then returnp (no_nodes, None) else
     bindp (external (CreateVectorDatabase nodes)
              (create_vector_database M nodes)) (\<lambda>index.
     if \<not> truthy_index M index then returnp (no_index, None) else
     bindp (external (VerifyEmbeddings index) (verify_embeddings M index)) (\<lambda>verified.
     bindp (if \<not> verified
            then logger (LoggerWarning ''Some embeddings may be missing or invalid'')
            else returnp ()) (\<lambda>_.
     bindp (external (GenerateInitialFacts index) (generate_initial_facts M index)) (\<lambda>facts.
     bindp (new_session_id M) (\<lambda>session_id.
     bindp (store_index session_id index) (\<lambda>_.
     returnp (success_message facts, Some session_id))))))))))"

text \<open>The handler, with its \<^verbatim>\<open>except\<close> clause, lines 88 to 90.\<close>

definition process_profile ::
  "('w, 'p, 'n, 'i, 'r) modules \<Rightarrow> string option \<Rightarrow> string option \<Rightarrow> bool \<Rightarrow> string
    \<Rightarrow> (('w, 'p, 'n, 'i, 'r) state, string \<times> string option) prog" where
  "process_profile M linkedin_url api_key use_mock selected_model =
     try_except (process_profile_body M linkedin_url api_key use_mock selected_model)
       (\<lambda>e. bindp (logger (LoggerError (''Error in process_profile: '' @ str_exc e))) (\<lambda>_.
             returnp (''Error: '' @ str_exc e, None)))"

subsection \<open>chat\_with\_profile\<close>

definition no_profile_loaded :: string where
  "no_profile_loaded = ''No profile loaded. Please process a LinkedIn profile first.''"

definition session_expired :: string where
  "session_expired = ''Session expired. Please process the LinkedIn profile again.''"

text \<open>The body of the \<^verbatim>\<open>try\<close> block, lines 113 to 120.\<close>

definition chat_with_profile_body ::
  "('w, 'p, 'n, 'i, 'r) modules \<Rightarrow> string option \<Rightarrow> string \<Rightarrow> (string \<times> string) list
    \<Rightarrow> (('w, 'p, 'n, 'i, 'r) state, (string \<times> string) list) prog" where
  "chat_with_profile_body M session_id user_query chat_history =
     bindp (get_index session_id) (\<lambda>index.
     bindp (external (AnswerUserQuery index user_query)
              (answer_user_query M index user_query)) (\<lambda>resp.
     bindp (\<lambda>s. (response M resp, s)) (\<lambda>reply.
     returnp (chat_history @ [(user_query, reply)]))))"

definition chat_with_profile ::
  "('w, 'p, 'n, 'i, 'r) modules \<Rightarrow> string option \<Rightarrow> string \<Rightarrow> (string \<times> string) list
    \<Rightarrow> (('w, 'p, 'n, 'i, 'r) state, (string \<times> string) list) prog" where
  "chat_with_profile M session_id user_query chat_history s =
     (if \<not> truthy_str session_id
      then returnp (chat_history @ [(user_query, no_profile_loaded)]) s
      else if \<not> has_session session_id (active_indices s)
      then returnp (chat_history @ [(user_query, session_expired)]) s
      else if strip user_query = []
      then returnp chat_history s
      else try_except (chat_with_profile_body M session_id user_query chat_history)
             (\<lambda>e. bindp (logger (LoggerError (''Error in chat_with_profile: '' @ str_exc e)))
                (\<lambda>_. returnp (chat_history @ [(user_query, ''Error: '' @ str_exc e)]))) s)"

subsection \<open>What a run of a handler leaves behind\<close>

text \<open>The entries a run from \<open>s\<close> to \<open>s'\<close> added to the log.\<close>

definition new_calls ::
  "('w, 'p, 'n, 'i, 'r) state \<Rightarrow> ('w, 'p, 'n, 'i, 'r) state \<Rightarrow> ('p, 'n, 'i, 'r) call list" where
  "new_calls s s' = drop (length (calls s)) (calls s')"

text \<open>
  The arguments \<^verbatim>\<open>extract_linkedin_profile\<close> is called with (lines 47, 48 and 53).
\<close>

definition effective_url :: "bool \<Rightarrow> string option \<Rightarrow> string option" where
  "effective_url use_mock linkedin_url =
     (if use_mock \<and> \<not> truthy_str linkedin_url then Some default_url else linkedin_url)"

definition forwarded_key :: "bool \<Rightarrow> string option \<Rightarrow> string option" where
  "forwarded_key use_mock api_key = (if \<not> use_mock then api_key else None)"

text \<open>
  The first statement of \<^verbatim>\<open>process_profile\<close> (lines 43 and 44) calls
  \<^verbatim>\<open>change_llm_model\<close> when the selected model is not the configured one: what
  the statement returns or raises, the world it leaves and what it adds to the log.
\<close>

definition model_change_result ::
  "('w, 'p, 'n, 'i, 'r) modules \<Rightarrow> string \<Rightarrow> ('w, 'p, 'n, 'i, 'r) state \<Rightarrow> pyexc + unit" where
  "model_change_result M selected_model s =
     (if selected_model \<noteq> LLM_MODEL_ID M (world s)
      then fst (change_llm_model M selected_model (world s)) else Inr ())"

definition model_change_world ::
  "('w, 'p, 'n, 'i, 'r) modules \<Rightarrow> string \<Rightarrow> ('w, 'p, 'n, 'i, 'r) state \<Rightarrow> 'w" where
  "model_change_world M selected_model s =
     (if selected_model \<noteq> LLM_MODEL_ID M (world s)
      then snd (change_llm_model M selected_model (world s)) else world s)"

definition model_change_log ::
  "('w, 'p, 'n, 'i, 'r) modules \<Rightarrow> string \<Rightarrow> ('w, 'p, 'n, 'i, 'r) state
    \<Rightarrow> ('p, 'n, 'i, 'r) call list" where
  "model_change_log M selected_model s =
     (if selected_model \<noteq> LLM_MODEL_ID M (world s)
      then [ChangeLlmModel selected_model (fst (change_llm_model M selected_model (world s)))]
      else [])"

text \<open>What lines 73 and 74 add to the log, and what the \<^verbatim>\<open>except\<close> clauses do.\<close>

definition warning_log :: "bool \<Rightarrow> ('p, 'n, 'i, 'r) call list" where
  "warning_log verified =
     (if verified then [] else [LoggerWarning ''Some embeddings may be missing or invalid''])"

definition error_result :: "pyexc \<Rightarrow> pyexc + string \<times> string option" where
  "error_result e = Inr (''Error: '' @ str_exc e, None)"

definition error_log :: "pyexc \<Rightarrow> ('p, 'n, 'i, 'r) call" where
  "error_log e = LoggerError (''Error in process_profile: '' @ str_exc e)"

definition chat_error_result ::
  "(string \<times> string) list \<Rightarrow> string \<Rightarrow> pyexc \<Rightarrow> pyexc + (string \<times> string) list" where
  "chat_error_result chat_history user_query e =
     Inr (chat_history @ [(user_query, ''Error: '' @ str_exc e)])"

definition chat_error_log :: "pyexc \<Rightarrow> ('p, 'n, 'i, 'r) call" where
  "chat_error_log e = LoggerError (''Error in chat_with_profile: '' @ str_exc e)"

text \<open>
  The ten ways through \<^verbatim>\<open>process_profile\<close>, each with the calls it makes, what
  they return, the result of the handler and the state it leaves. \<open>url\<close> and \<open>key\<close>
  are the arguments \<^verbatim>\<open>extract_linkedin_profile\<close> gets. That every run of
  \<open>process_profile\<close> is one of them is lemma \<open>process_profile_runs\<close>.
\<close>

inductive process_profile_run ::
  "('w, 'p, 'n, 'i, 'r) modules \<Rightarrow> string option \<Rightarrow> string option \<Rightarrow> bool \<Rightarrow> string
    \<Rightarrow> ('w, 'p, 'n, 'i, 'r) state \<Rightarrow> pyexc + string \<times> string option
    \<Rightarrow> ('w, 'p, 'n, 'i, 'r) state \<Rightarrow> bool"
  for M url key use_mock selected_model s
  where
    model_raised:
      "model_change_result M selected_model s = Inl e \<Longrightarrow>
       process_profile_run M url key use_mock selected_model s (error_result e)
         (s\<lparr>world := model_change_world M selected_model s,
            calls := calls s @ model_change_log M selected_model s @ [error_log e]\<rparr>)"
  | extract_raised:
      "model_change_result M selected_model s = Inr () \<Longrightarrow>
       extract_linkedin_profile M url key use_mock (model_change_world M selected_model s)
         = (Inl e, w1) \<Longrightarrow>
       process_profile_run M url key use_mock selected_model s (error_result e)
         (s\<lparr>world := w1,
            calls := calls s @ model_change_log M selected_model s @
              [ExtractLinkedinProfile url key use_mock (Inl e), error_log e]\<rparr>)"
  | no_profile:
      "model_change_result M selected_model s = Inr () \<Longrightarrow>
       extract_linkedin_profile M url key use_mock (model_change_world M selected_model s)
         = (Inr p, w1) \<Longrightarrow>
       \<not> truthy_profile M p \<Longrightarrow>
       process_profile_run M url key use_mock selected_model s (Inr (no_profile_data, None))
         (s\<lparr>world := w1,
            calls := calls s @ model_change_log M selected_model s @
              [ExtractLinkedinProfile url key use_mock (Inr p)]\<rparr>)"
  | split_raised:
      "model_change_result M selected_model s = Inr () \<Longrightarrow>
       extract_linkedin_profile M url key use_mock (model_change_world M selected_model s)
         = (Inr p, w1) \<Longrightarrow>
       truthy_profile M p \<Longrightarrow>
       split_profile_data M p w1 = (Inl e, w2) \<Longrightarrow>
       process_profile_run M url key use_mock selected_model s (error_result e)
         (s\<lparr>world := w2,
            calls := calls s @ model_change_log M selected_model s @
              [ExtractLinkedinProfile url key use_mock (Inr p),
               SplitProfileData p (Inl e), error_log e]\<rparr>)"
  | no_nodes:
      "model_change_result M selected_model s = Inr () \<Longrightarrow>
       extract_linkedin_profile M url key use_mock (model_change_world M selected_model s)
         = (Inr p, w1) \<Longrightarrow>
       truthy_profile M p \<Longrightarrow>
       split_profile_data M p w1 = (Inr n, w2) \<Longrightarrow>
       \<not> truthy_nodes M n \<Longrightarrow>
       process_profile_run M url key use_mock selected_model s (Inr (no_nodes, None))
         (s\<lparr>world := w2,
            calls := calls s @ model_change_log M selected_model s @
              [ExtractLinkedinProfile url key use_mock (Inr p), SplitProfileData p (Inr n)]\<rparr>)"
  | create_raised:
      "model_change_result M selected_model s = Inr () \<Longrightarrow>
       extract_linkedin_profile M url key use_mock (model_change_world M selected_model s)
         = (Inr p, w1) \<Longrightarrow>
       truthy_profile M p \<Longrightarrow>
       split_profile_data M p w1 = (Inr n, w2) \<Longrightarrow>
       truthy_nodes M n \<Longrightarrow>
       create_vector_database M n w2 = (Inl e, w3) \<Longrightarrow>
       process_profile_run M url key use_mock selected_model s (error_result e)
         (s\<lparr>world := w3,
            calls := calls s @ model_change_log M selected_model s @
              [ExtractLinkedinProfile url key use_mock (Inr p), SplitProfileData p (Inr n),
               CreateVectorDatabase n (Inl e), error_log e]\<rparr>)"
  | no_index:
      "model_change_result M selected_model s = Inr () \<Longrightarrow>
       extract_linkedin_profile M url key use_mock (model_change_world M selected_model s)
         = (Inr p, w1) \<Longrightarrow>
       truthy_profile M p \<Longrightarrow>
       split_profile_data M p w1 = (Inr n, w2) \<Longrightarrow>
       truthy_nodes M n \<Longrightarrow>
       create_vector_database M n w2 = (Inr i, w3) \<Longrightarrow>
       \<not> truthy_index M i \<Longrightarrow>
       process_profile_run M url key use_mock selected_model s (Inr (no_index, None))
         (s\<lparr>world := w3,
            calls := calls s @ model_change_log M selected_model s @
              [ExtractLinkedinProfile url key use_mock (Inr p), SplitProfileData p (Inr n),
               CreateVectorDatabase n (Inr i)]\<rparr>)"
  | verify_raised:
      "model_change_result M selected_model s = Inr () \<Longrightarrow>
       extract_linkedin_profile M url key use_mock (model_change_world M selected_model s)
         = (Inr p, w1) \<Longrightarrow>
       truthy_profile M p \<Longrightarrow>
       split_profile_data M p w1 = (Inr n, w2) \<Longrightarrow>
       truthy_nodes M n \<Longrightarrow>
       create_vector_database M n w2 = (Inr i, w3) \<Longrightarrow>
       truthy_index M i \<Longrightarrow>
       verify_embeddings M i w3 = (Inl e, w4) \<Longrightarrow>
       process_profile_run M url key use_mock selected_model s (error_result e)
         (s\<lparr>world := w4,
            calls := calls s @ model_change_log M selected_model s @
              [ExtractLinkedinProfile url key use_mock (Inr p), SplitProfileData p (Inr n),
               CreateVectorDatabase n (Inr i), VerifyEmbeddings i (Inl e), error_log e]\<rparr>)"
  | generate_raised:
      "model_change_result M selected_model s = Inr () \<Longrightarrow>
       extract_linkedin_profile M url key use_mock (model_change_world M selected_model s)
         = (Inr p, w1) \<Longrightarrow>
       truthy_profile M p \<Longrightarrow>
       split_profile_data M p w1 = (Inr n, w2) \<Longrightarrow>
       truthy_nodes M n \<Longrightarrow>
       create_vector_database M n w2 = (Inr i, w3) \<Longrightarrow>
       truthy_index M i \<Longrightarrow>
       verify_embeddings M i w3 = (Inr v, w4) \<Longrightarrow>
       generate_initial_facts M i w4 = (Inl e, w5) \<Longrightarrow>
       process_profile_run M url key use_mock selected_model s (error_result e)
         (s\<lparr>world := w5,
            calls := calls s @ model_change_log M selected_model s @
              [ExtractLinkedinProfile url key use_mock (Inr p), SplitProfileData p (Inr n),
               CreateVectorDatabase n (Inr i), VerifyEmbeddings i (Inr v)] @ warning_log v @
              [GenerateInitialFacts i (Inl e), error_log e]\<rparr>)"
  | success:
      "model_change_result M selected_model s = Inr () \<Longrightarrow>
       extract_linkedin_profile M url key use_mock (model_change_world M selected_model s)
         = (Inr p, w1) \<Longrightarrow>
       truthy_profile M p \<Longrightarrow>
       split_profile_data M p w1 = (Inr n, w2) \<Longrightarrow>
       truthy_nodes M n \<Longrightarrow>
       create_vector_database M n w2 = (Inr i, w3) \<Longrightarrow>
       truthy_index M i \<Longrightarrow>
       verify_embeddings M i w3 = (Inr v, w4) \<Longrightarrow>
       generate_initial_facts M i w4 = (Inr facts, w5) \<Longrightarrow>
       uuid4 M w5 = (u, w6) \<Longrightarrow>
       process_profile_run M url key use_mock selected_model s
         (Inr (success_message facts, Some (str_uuid u)))
         (s\<lparr>world := w6,
            calls := calls s @ model_change_log M selected_model s @
              [ExtractLinkedinProfile url key use_mock (Inr p), SplitProfileData p (Inr n),
               CreateVectorDatabase n (Inr i), VerifyEmbeddings i (Inr v)] @ warning_log v @
              [GenerateInitialFacts i (Inr facts), Uuid4 u],
            active_indices := (active_indices s)(str_uuid u \<mapsto> i)\<rparr>)"

text \<open>
  The six ways through \<^verbatim>\<open>chat_with_profile\<close>; that every run is one of them is
  lemma \<open>chat_with_profile_runs\<close>.
\<close>

inductive chat_with_profile_run ::
  "('w, 'p, 'n, 'i, 'r) modules \<Rightarrow> string option \<Rightarrow> string \<Rightarrow> (string \<times> string) list
    \<Rightarrow> ('w, 'p, 'n, 'i, 'r) state \<Rightarrow> pyexc + (string \<times> string) list
    \<Rightarrow> ('w, 'p, 'n, 'i, 'r) state \<Rightarrow> bool"
  for M session_id user_query chat_history s
  where
    no_session:
      "\<not> truthy_str session_id \<Longrightarrow>
       chat_with_profile_run M session_id user_query chat_history s
         (Inr (chat_history @ [(user_query, no_profile_loaded)])) s"
  | expired:
      "truthy_str session_id \<Longrightarrow>
       \<not> has_session session_id (active_indices s) \<Longrightarrow>
       chat_with_profile_run M session_id user_query chat_history s
         (Inr (chat_history @ [(user_query, session_expired)])) s"
  | blank_query:
      "truthy_str session_id \<Longrightarrow>
       has_session session_id (active_indices s) \<Longrightarrow>
       strip user_query = [] \<Longrightarrow>
       chat_with_profile_run M session_id user_query chat_history s (Inr chat_history) s"
  | answer_raised:
      "truthy_str session_id \<Longrightarrow>
       session_id = Some k \<Longrightarrow>
       active_indices s k = Some index \<Longrightarrow>
       strip user_query \<noteq> [] \<Longrightarrow>
       answer_user_query M index user_query (world s) = (Inl e, w) \<Longrightarrow>
       chat_with_profile_run M session_id user_query chat_history s
         (chat_error_result chat_history user_query e)
         (s\<lparr>world := w,
            calls := calls s @ [AnswerUserQuery index user_query (Inl e), chat_error_log e]\<rparr>)"
  | response_raised:
      "truthy_str session_id \<Longrightarrow>
       session_id = Some k \<Longrightarrow>
       active_indices s k = Some index \<Longrightarrow>
       strip user_query \<noteq> [] \<Longrightarrow>
       answer_user_query M index user_query (world s) = (Inr resp, w) \<Longrightarrow>
       response M resp = Inl e \<Longrightarrow>
       chat_with_profile_run M session_id user_query chat_history s
         (chat_error_result chat_history user_query e)
         (s\<lparr>world := w,
            calls := calls s @
              [AnswerUserQuery index user_query (Inr resp), chat_error_log e]\<rparr>)"
  | answered:
      "truthy_str session_id \<Longrightarrow>
       session_id = Some k \<Longrightarrow>
       active_indices s k = Some index \<Longrightarrow>
       strip user_query \<noteq> [] \<Longrightarrow>
       answer_user_query M index user_query (world s) = (Inr resp, w) \<Longrightarrow>
       response M resp = Inr reply \<Longrightarrow>
       chat_with_profile_run M session_id user_query chat_history s
         (Inr (chat_history @ [(user_query, reply)]))
         (s\<lparr>world := w, calls := calls s @ [AnswerUserQuery index user_query (Inr resp)]\<rparr>)"

text \<open>
  What holds of the result and the final state of a piece of a handler run from \<open>s\<close>.
\<close>

definition wp :: "('s, 'a) prog \<Rightarrow> ((pyexc + 'a) \<Rightarrow> 's \<Rightarrow> bool) \<Rightarrow> 's \<Rightarrow> bool" where
  "wp m Q s = (case m s of (r, s') \<Rightarrow> Q r s')"

subsection \<open>Which function a log entry is a call of, and whether the call failed\<close>

datatype callee =
    ChangeLlmModelFn | ExtractLinkedinProfileFn | SplitProfileDataFn | CreateVectorDatabaseFn
  | VerifyEmbeddingsFn | GenerateInitialFactsFn | Uuid4Fn | AnswerUserQueryFn | LoggerFn

fun callee_of :: "('p, 'n, 'i, 'r) call \<Rightarrow> callee" where
  "callee_of (ChangeLlmModel _ _) = ChangeLlmModelFn"
| "callee_of (ExtractLinkedinProfile _ _ _ _) = ExtractLinkedinProfileFn"
| "callee_of (SplitProfileData _ _) = SplitProfileDataFn"
| "callee_of (CreateVectorDatabase _ _) = CreateVectorDatabaseFn"
| "callee_of (VerifyEmbeddings _ _) = VerifyEmbeddingsFn"
| "callee_of (GenerateInitialFacts _ _) = GenerateInitialFactsFn"
| "callee_of (Uuid4 _) = Uuid4Fn"
| "callee_of (AnswerUserQuery _ _ _) = AnswerUserQueryFn"
| "callee_of (LoggerWarning _) = LoggerFn"
| "callee_of (LoggerError _) = LoggerFn"

text \<open>
  A call failed when it raised or returned a value that the handler takes for a failure: a
  profile, nodes or an index that Python counts as false, or a response whose attribute
  \<^verbatim>\<open>response\<close> cannot be read.
\<close>

fun failed :: "('w, 'p, 'n, 'i, 'r) modules \<Rightarrow> ('p, 'n, 'i, 'r) call \<Rightarrow> bool" where
  "failed M (ChangeLlmModel _ r) = isl r"
| "failed M (ExtractLinkedinProfile _ _ _ r) =
     (case r of Inl _ \<Rightarrow> True | Inr p \<Rightarrow> \<not> truthy_profile M p)"
| "failed M (SplitProfileData _ r) = (case r of Inl _ \<Rightarrow> True | Inr n \<Rightarrow> \<not> truthy_nodes M n)"
| "failed M (CreateVectorDatabase _ r) =
     (case r of Inl _ \<Rightarrow> True | Inr i \<Rightarrow> \<not> truthy_index M i)"
| "failed M (VerifyEmbeddings _ r) = isl r"
| "failed M (GenerateInitialFacts _ r) = isl r"
| "failed M (Uuid4 _) = False"
| "failed M (AnswerUserQuery _ _ r) =
     (case r of Inl _ \<Rightarrow> True | Inr resp \<Rightarrow> isl (response M resp))"
| "failed M (LoggerWarning _) = False"
| "failed M (LoggerError _) = False"

text \<open>After a failed call the log holds nothing but messages to the logger.\<close>

fun ends_at_failure ::
  "('w, 'p, 'n, 'i, 'r) modules \<Rightarrow> ('p, 'n, 'i, 'r) call list \<Rightarrow> bool" where
  "ends_at_failure M [] = True"
| "ends_at_failure M (c # cs) =
     (if failed M c then list_all (\<lambda>y. callee_of y = LoggerFn) cs else ends_at_failure M cs)"

text \<open>
  The second component of a pair appended by \<^verbatim>\<open>chat_with_profile\<close>, from what
  \<^verbatim>\<open>answer_user_query\<close> returned or raised (lines 117 to 124).
\<close>

definition reply_of :: "('w, 'p, 'n, 'i, 'r) modules \<Rightarrow> pyexc + 'r \<Rightarrow> string" where
  "reply_of M res =
     (case res of
        Inl e \<Rightarrow> ''Error: '' @ str_exc e
      | Inr resp \<Rightarrow>
          (case response M resp of Inl e \<Rightarrow> ''Error: '' @ str_exc e | Inr reply \<Rightarrow> reply))"

text \<open>
  The imported functions with the truth value that \<^verbatim>\<open>verify_embeddings\<close> returns
  replaced by \<open>b\<close>; what it raises and what it does to the world stay.
\<close>

definition with_verification ::
  "bool \<Rightarrow> ('w, 'p, 'n, 'i, 'r) modules \<Rightarrow> ('w, 'p, 'n, 'i, 'r) modules" where
  "with_verification b M =
     M\<lparr>verify_embeddings :=
         (\<lambda>i w. case verify_embeddings M i w of
                  (Inl e, w') \<Rightarrow> (Inl e, w')
                | (Inr _, w') \<Rightarrow> (Inr b, w'))\<rparr>"

subsection \<open>A concrete instance\<close>

text \<open>
  The state at import time (line 27: \<^verbatim>\<open>active_indices = {}\<close>), and imported
  functions simple enough to run the handlers on: the world counts the calls made so far.
  \<open>stub_session\<close> is the state after one profile was processed in the initial state.
\<close>

definition initial_state :: "'w \<Rightarrow> ('w, 'p, 'n, 'i, 'r) state" where
  "initial_state w = \<lparr>world = w, active_indices = Map.empty, calls = []\<rparr>"

definition stub_start :: "(nat, string, string list, nat, string) state" where
  "stub_start = initial_state 0"

definition stub_modules :: "(nat, string, string list, nat, string) modules" where
  "stub_modules =
     \<lparr>LLM_MODEL_ID = (\<lambda>w. ''ibm/granite-3-2-8b-instruct''),
      change_llm_model = (\<lambda>m w. (Inr (), w + 1)),
      extract_linkedin_profile =
        (\<lambda>url key mock w.
           (case url of
              None \<Rightarrow> Inr ''''
            | Some _ \<Rightarrow>
                if mock \<or> key \<noteq> None then Inr ''Leon'' else Inl (PyException ''no key''),
            w + 1)),
      split_profile_data = (\<lambda>p w. (Inr [p], w + 1)),
      create_vector_database = (\<lambda>n w. (Inr (length n), w + 1)),
      verify_embeddings = (\<lambda>i w. (Inr False, w + 1)),
      generate_initial_facts = (\<lambda>i w. (Inr ''1. Leon'', w + 1)),
      answer_user_query =
        (\<lambda>i q w. (if q = ''boom'' then Inl (PyException ''LLM down'') else Inr (rev q), w + 1)),
      response = (\<lambda>resp. Inr resp),
      uuid4 = (\<lambda>w. (of_nat w, w + 1)),
      truthy_profile = (\<lambda>p. p \<noteq> []),
      truthy_nodes = (\<lambda>n. n \<noteq> []),
      truthy_index = (\<lambda>i. True)\<rparr>"

definition stub_session :: "(nat, string, string list, nat, string) state" where
  "stub_session =
     \<lparr>world = 6, active_indices = [str_uuid 5 \<mapsto> 1],
      calls =
        [ExtractLinkedinProfile (Some default_url) None True (Inr ''Leon''),
         SplitProfileData ''Leon'' (Inr [''Leon'']),
         CreateVectorDatabase [''Leon''] (Inr 1),
         VerifyEmbeddings 1 (Inr False),
         LoggerWarning ''Some embeddings may be missing or invalid'',
         GenerateInitialFacts 1 (Inr ''1. Leon''),
         Uuid4 5]\<rparr>"

section \<open>The runs of the handlers\<close>

lemma wpD: "wp m Q s \<Longrightarrow> m s = (r, s') \<Longrightarrow> Q r s'"
  by (simp add: wp_def)

lemma wp_returnp: "wp (returnp x) Q s = Q (Inr x) s"
  by (simp add: wp_def returnp_def)

lemma wp_bindp:
  "wp (bindp m f) Q s =
     wp m (\<lambda>r s'. case r of Inl e \<Rightarrow> Q (Inl e) s' | Inr x \<Rightarrow> wp (f x) Q s') s"
  by (simp add: wp_def bindp_def split: prod.split sum.split)

lemma wp_try_except:
  "wp (try_except m h) Q s =
     wp m (\<lambda>r s'. case r of Inl e \<Rightarrow> wp (h e) Q s' | Inr x \<Rightarrow> Q (Inr x) s') s"
  by (simp add: wp_def try_except_def split: prod.split sum.split)

lemma wp_external:
  "wp (external c f) Q s =
     (\<forall>r w'. f (world s) = (r, w') \<longrightarrow> Q r (s\<lparr>world := w', calls := calls s @ [c r]\<rparr>))"
  by (simp add: wp_def external_def split: prod.split)

lemma wp_logger: "wp (logger c) Q s = Q (Inr ()) (s\<lparr>calls := calls s @ [c]\<rparr>)"
  by (simp add: wp_def logger_def)

lemma wp_new_session_id:
  "wp (new_session_id M) Q s =
     (\<forall>u w'. uuid4 M (world s) = (u, w') \<longrightarrow>
        Q (Inr (str_uuid u)) (s\<lparr>world := w', calls := calls s @ [Uuid4 u]\<rparr>))"
  by (simp add: wp_def new_session_id_def split: prod.split)

lemma wp_store_index:
  "wp (store_index k i) Q s = Q (Inr ()) (s\<lparr>active_indices := (active_indices s)(k \<mapsto> i)\<rparr>)"
  by (simp add: wp_def store_index_def)

lemma wp_model_change:
  "wp (\<lambda>s. if selected_model \<noteq> LLM_MODEL_ID M (world s)
           then external (ChangeLlmModel selected_model) (change_llm_model M selected_model) s
           else returnp () s) Q s =
   Q (model_change_result M selected_model s)
     (s\<lparr>world := model_change_world M selected_model s,
        calls := calls s @ model_change_log M selected_model s\<rparr>)"
  by (simp add: wp_def external_def returnp_def model_change_result_def model_change_world_def
        model_change_log_def split: prod.split)

lemma wp_warning:
  "wp (if \<not> verified
       then logger (LoggerWarning ''Some embeddings may be missing or invalid'')
       else returnp ()) Q s =
   Q (Inr ()) (s\<lparr>calls := calls s @ warning_log verified\<rparr>)"
  by (simp add: wp_def logger_def returnp_def warning_log_def)

lemma wp_if_return:
  "wp (if b then returnp x else m) Q s = ((b \<longrightarrow> Q (Inr x) s) \<and> (\<not> b \<longrightarrow> wp m Q s))"
  by (simp add: wp_returnp)

lemma wp_get_index:
  "active_indices s k = Some index \<Longrightarrow> wp (get_index (Some k)) Q s = Q (Inr index) s"
  by (simp add: wp_def get_index_def)

lemma wp_response: "wp (\<lambda>s. (response M resp, s)) Q s = Q (response M resp) s"
  by (simp add: wp_def)

lemmas wp_simps = wp_returnp wp_bindp wp_try_except wp_external wp_logger wp_new_session_id
  wp_store_index wp_model_change wp_warning wp_if_return wp_response

lemmas process_profile_run_rules =
  process_profile_run.intros [unfolded error_result_def error_log_def, simplified]

lemma process_profile_run_wp:
  fixes M :: "('w, 'p, 'n, 'i, 'r) modules" and s :: "('w, 'p, 'n, 'i, 'r) state"
  shows "wp (process_profile M linkedin_url api_key use_mock selected_model)
           (process_profile_run M (effective_url use_mock linkedin_url)
              (forwarded_key use_mock api_key) use_mock selected_model s) s"
proof -
  define url where "url = effective_url use_mock linkedin_url"
  define key where "key = forwarded_key use_mock api_key"
  show ?thesis
    unfolding process_profile_def process_profile_body_def Let_def
      url_def [symmetric, unfolded effective_url_def]
      key_def [symmetric, unfolded forwarded_key_def]
      url_def [symmetric] key_def [symmetric]
    apply (simp add: wp_simps split: sum.split split del: if_split)
    apply (intro conjI allI impI)
             apply (rule process_profile_run_rules; assumption)+
    done
qed

text \<open>Every run of \<open>process_profile\<close> is one of the ten.\<close>

lemma process_profile_runs:
  assumes "process_profile M linkedin_url api_key use_mock selected_model s = (r, s')"
  shows "process_profile_run M (effective_url use_mock linkedin_url)
           (forwarded_key use_mock api_key) use_mock selected_model s r s'"
  using wpD [OF process_profile_run_wp assms] .

lemmas chat_with_profile_run_rules =
  chat_with_profile_run.intros [unfolded chat_error_result_def chat_error_log_def, simplified]

text \<open>Every run of \<open>chat_with_profile\<close> is one of the six.\<close>

lemma chat_with_profile_runs:
  assumes run: "chat_with_profile M session_id user_query chat_history s = (r, s')"
  shows "chat_with_profile_run M session_id user_query chat_history s r s'"
proof (cases "truthy_str session_id")
  case False
  with run show ?thesis
    by (auto simp: chat_with_profile_def returnp_def intro: chat_with_profile_run.no_session)
next
  case truthy: True
  show ?thesis
  proof (cases "has_session session_id (active_indices s)")
    case False
    with run truthy show ?thesis
      by (auto simp: chat_with_profile_def returnp_def intro: chat_with_profile_run.expired)
  next
    case has: True
    then obtain k index where k: "session_id = Some k" "active_indices s k = Some index"
      by (auto simp: has_session_def split: option.splits)
    show ?thesis
    proof (cases "strip user_query = []")
      case True
      with run truthy has show ?thesis
        by (auto simp: chat_with_profile_def returnp_def
            intro: chat_with_profile_run.blank_query)
    next
      case False
      have "wp (try_except (chat_with_profile_body M session_id user_query chat_history)
              (\<lambda>e. bindp (logger (LoggerError (''Error in chat_with_profile: '' @ str_exc e)))
                 (\<lambda>_. returnp (chat_history @ [(user_query, ''Error: '' @ str_exc e)]))))
              (chat_with_profile_run M session_id user_query chat_history s) s"
        unfolding chat_with_profile_body_def k(1)
        apply (simp add: wp_simps wp_get_index [OF k(2)] split: sum.split split del: if_split)
        apply (intro conjI allI impI)
          apply (rule chat_with_profile_run_rules(4-6);
            (assumption | rule truthy [unfolded k(1)] refl k(2) False))+
        done
      moreover have "try_except (chat_with_profile_body M session_id user_query chat_history)
              (\<lambda>e. bindp (logger (LoggerError (''Error in chat_with_profile: '' @ str_exc e)))
                 (\<lambda>_. returnp (chat_history @ [(user_query, ''Error: '' @ str_exc e)]))) s
            = (r, s')"
        using run truthy has False by (simp add: chat_with_profile_def)
      ultimately show ?thesis
        by (rule wpD)
    qed
  qed
qed

subsection \<open>The log of a run\<close>

lemma new_calls_append [simp]:
  "calls s' = calls s @ cs \<Longrightarrow> new_calls s s' = cs"
  by (simp add: new_calls_def)

lemma model_change_log_raised:
  "model_change_result M selected_model s = Inl e \<Longrightarrow>
   model_change_log M selected_model s = [ChangeLlmModel selected_model (Inl e)]"
  by (simp add: model_change_result_def model_change_log_def split: if_splits)

lemma in_model_change_log:
  "c \<in> set (model_change_log M selected_model s) \<Longrightarrow>
   c = ChangeLlmModel selected_model (model_change_result M selected_model s)"
  by (simp add: model_change_result_def model_change_log_def split: if_splits)

lemma in_warning_log:
  "c \<in> set (warning_log v) \<Longrightarrow> c = LoggerWarning ''Some embeddings may be missing or invalid''"
  by (simp add: warning_log_def split: if_splits)

lemma at_most_once:
  "distinct (map g xs) \<Longrightarrow> length (filter (\<lambda>c. g c = f) xs) \<le> 1"
proof (induction xs)
  case Nil
  then show ?case by simp
next
  case (Cons a xs)
  show ?case
  proof (cases "g a = f")
    case True
    from Cons.prems have "g a \<notin> g ` set xs"
      by simp
    with True have "\<forall>x \<in> set xs. g x \<noteq> f"
      by blast
    then have "filter (\<lambda>c. g c = f) xs = []"
      by (simp add: filter_empty_conv)
    with True show ?thesis by simp
  next
    case False
    with Cons show ?thesis by simp
  qed
qed

lemma at_most_once_calls:
  assumes "distinct (map callee_of (filter (\<lambda>c. callee_of c \<noteq> LoggerFn) cs))" and "f \<noteq> LoggerFn"
  shows "length (filter (\<lambda>c. callee_of c = f) cs) \<le> 1"
proof -
  have "filter (\<lambda>c. callee_of c = f) (filter (\<lambda>c. callee_of c \<noteq> LoggerFn) cs)
          = filter (\<lambda>c. callee_of c = f) cs"
    using assms(2) by (auto simp: filter_filter intro: filter_cong)
  with at_most_once [OF assms(1), of f] show ?thesis by simp
qed

lemma ends_at_failure_append:
  "list_all (\<lambda>c. \<not> failed M c) xs \<Longrightarrow> ends_at_failure M (xs @ ys) = ends_at_failure M ys"
  by (induction xs) simp_all

lemma ends_at_failureD:
  "ends_at_failure M cs \<Longrightarrow> cs = xs @ c # ys \<Longrightarrow> failed M c \<Longrightarrow> y \<in> set ys \<Longrightarrow>
   callee_of y = LoggerFn"
proof (induction cs arbitrary: xs)
  case Nil
  then show ?case by simp
next
  case (Cons a cs)
  show ?case
  proof (cases xs)
    case Nil
    with Cons.prems show ?thesis by (auto simp: list_all_iff)
  next
    case (Cons b bs)
    with Cons.prems have cs: "cs = bs @ c # ys" by simp
    show ?thesis
    proof (cases "failed M a")
      case True
      with Cons.prems(1) have "list_all (\<lambda>y. callee_of y = LoggerFn) cs" by simp
      with cs Cons.prems(4) show ?thesis by (auto simp: list_all_iff)
    next
      case False
      with Cons.prems(1) have "ends_at_failure M cs" by simp
      from Cons.IH [OF this cs Cons.prems(3,4)] show ?thesis .
    qed
  qed
qed

lemma model_change_log_callee:
  "map callee_of (filter (\<lambda>c. callee_of c \<noteq> LoggerFn) (model_change_log M selected_model s))
     = map callee_of (model_change_log M selected_model s)"
  "set (map callee_of (model_change_log M selected_model s)) \<subseteq> {ChangeLlmModelFn}"
  "distinct (map callee_of (model_change_log M selected_model s))"
  by (auto simp: model_change_log_def)

lemma warning_log_callee:
  "filter (\<lambda>c. callee_of c \<noteq> LoggerFn) (warning_log v) = []"
  "list_all (\<lambda>c. \<not> failed M c) (warning_log v)"
  by (simp_all add: warning_log_def)

lemma model_change_log_not_failed:
  "model_change_result M selected_model s = Inr () \<Longrightarrow>
   list_all (\<lambda>c. \<not> failed M c) (model_change_log M selected_model s)"
  by (simp add: model_change_result_def model_change_log_def split: if_splits)

lemma process_profile_calls_distinct:
  assumes "process_profile M linkedin_url api_key use_mock selected_model s = (r, s')"
  shows "distinct (map callee_of (filter (\<lambda>c. callee_of c \<noteq> LoggerFn) (new_calls s s')))"
  using process_profile_runs [OF assms]
  by cases
    (use model_change_log_callee(2) [of M selected_model s] in
      \<open>auto simp: error_log_def model_change_log_callee(1,3) warning_log_callee\<close>)

lemma process_profile_ends_at_failure:
  assumes "process_profile M linkedin_url api_key use_mock selected_model s = (r, s')"
  shows "ends_at_failure M (new_calls s s')"
  using process_profile_runs [OF assms]
  by cases
    (simp_all add: error_log_def model_change_log_raised model_change_log_not_failed
      ends_at_failure_append warning_log_callee)

lemma chat_with_profile_calls_distinct:
  assumes "chat_with_profile M session_id user_query chat_history s = (r, s')"
  shows "distinct (map callee_of (filter (\<lambda>c. callee_of c \<noteq> LoggerFn) (new_calls s s')))"
  using chat_with_profile_runs [OF assms]
  by cases (simp_all add: chat_error_log_def new_calls_def)

lemma chat_with_profile_ends_at_failure:
  assumes "chat_with_profile M session_id user_query chat_history s = (r, s')"
  shows "ends_at_failure M (new_calls s s')"
  using chat_with_profile_runs [OF assms]
  by cases (simp_all add: chat_error_log_def new_calls_def)

subsection \<open>Blank queries and raising \<^verbatim>\<open>try\<close> blocks\<close>

lemma strip_empty_iff: "strip q = [] \<longleftrightarrow> (\<forall>c \<in> set q. py_isspace c)"
proof
  assume "strip q = []"
  then have "\<forall>c \<in> set (dropWhile py_isspace q). py_isspace c"
    by (simp add: strip_def dropWhile_eq_Nil_conv)
  then have "dropWhile py_isspace q = []"
    using hd_dropWhile [of py_isspace q] hd_in_set [of "dropWhile py_isspace q"] by blast
  then show "\<forall>c \<in> set q. py_isspace c"
    by (simp add: dropWhile_eq_Nil_conv)
next
  assume "\<forall>c \<in> set q. py_isspace c"
  then show "strip q = []"
    by (auto simp: strip_def dropWhile_eq_Nil_conv dest: set_dropWhileD)
qed

lemma process_profile_body_raised:
  assumes "process_profile_body M linkedin_url api_key use_mock selected_model s = (Inl e, s1)"
  shows "fst (process_profile M linkedin_url api_key use_mock selected_model s) = error_result e"
  using assms
  by (simp add: process_profile_def try_except_def bindp_def logger_def returnp_def
      error_result_def)

lemma chat_with_profile_body_raised:
  assumes "chat_with_profile_body M session_id user_query chat_history s = (Inl e, s1)"
    and "truthy_str session_id" and "has_session session_id (active_indices s)"
    and "strip user_query \<noteq> []"
  shows "fst (chat_with_profile M session_id user_query chat_history s)
           = chat_error_result chat_history user_query e"
  using assms
  by (simp add: chat_with_profile_def try_except_def bindp_def logger_def returnp_def
      chat_error_result_def)

subsection \<open>Each of the ten ways is a run, and the result of verification does not matter\<close>

lemma model_step_eq:
  "(if selected_model \<noteq> LLM_MODEL_ID M (world s)
    then external (ChangeLlmModel selected_model) (change_llm_model M selected_model) s
    else returnp () s) =
   (model_change_result M selected_model s,
    s\<lparr>world := model_change_world M selected_model s,
       calls := calls s @ model_change_log M selected_model s\<rparr>)"
  by (simp add: external_def returnp_def model_change_result_def model_change_world_def
      model_change_log_def split: prod.split)

lemma process_profile_run_complete:
  assumes "process_profile_run M (effective_url use_mock linkedin_url)
             (forwarded_key use_mock api_key) use_mock selected_model s r s'"
  shows "process_profile M linkedin_url api_key use_mock selected_model s = (r, s')"
  using assms
proof cases
  case (model_raised e)
  then show ?thesis
    unfolding process_profile_def process_profile_body_def try_except_def bindp_def Let_def
      model_step_eq
    by (simp add: error_result_def error_log_def logger_def returnp_def)
next
  case (success p w1 n w2 i w3 v w4 facts w5 u w6)
  then show ?thesis
    unfolding process_profile_def process_profile_body_def try_except_def bindp_def Let_def
      model_step_eq effective_url_def forwarded_key_def
    by (simp add: error_result_def error_log_def logger_def returnp_def external_def
        new_session_id_def store_index_def warning_log_def)
qed (unfold process_profile_def process_profile_body_def try_except_def bindp_def Let_def
      model_step_eq effective_url_def forwarded_key_def,
    simp_all add: error_result_def error_log_def logger_def returnp_def external_def
        new_session_id_def store_index_def warning_log_def)


lemma with_verification_fields [simp]:
  "LLM_MODEL_ID (with_verification b M) = LLM_MODEL_ID M"
  "change_llm_model (with_verification b M) = change_llm_model M"
  "extract_linkedin_profile (with_verification b M) = extract_linkedin_profile M"
  "split_profile_data (with_verification b M) = split_profile_data M"
  "create_vector_database (with_verification b M) = create_vector_database M"
  "generate_initial_facts (with_verification b M) = generate_initial_facts M"
  "uuid4 (with_verification b M) = uuid4 M"
  "truthy_profile (with_verification b M) = truthy_profile M"
  "truthy_nodes (with_verification b M) = truthy_nodes M"
  "truthy_index (with_verification b M) = truthy_index M"
  by (simp_all add: with_verification_def)

lemma with_verification_model_change [simp]:
  "model_change_result (with_verification b M) selected_model s
     = model_change_result M selected_model s"
  "model_change_world (with_verification b M) selected_model s
     = model_change_world M selected_model s"
  by (simp_all add: model_change_result_def model_change_world_def)

lemma with_verification_verify:
  "verify_embeddings (with_verification b M) i w =
     (case verify_embeddings M i w of
        (Inl e, w') \<Rightarrow> (Inl e, w')
      | (Inr _, w') \<Rightarrow> (Inr b, w'))"
  by (simp add: with_verification_def)

lemma process_profile_run_transfer:
  assumes "process_profile_run M url key use_mock selected_model s r s1"
  shows "\<exists>s2. process_profile_run (with_verification b M) url key use_mock selected_model s r s2
           \<and> world s2 = world s1 \<and> active_indices s2 = active_indices s1"
  using assms
proof cases
  case (model_raised e)
  show ?thesis
    by (unfold model_raised(1,2), rule exI, rule conjI,
        rule process_profile_run.model_raised [where e = e])
      (use model_raised(3-) in simp_all)
next
  case (extract_raised e w1)
  show ?thesis
    by (unfold extract_raised(1,2), rule exI, rule conjI,
        rule process_profile_run.extract_raised [where e = e and ?w1.0 = w1])
      (use extract_raised(3-) in simp_all)
next
  case (no_profile p w1)
  show ?thesis
    by (unfold no_profile(1,2), rule exI, rule conjI,
        rule process_profile_run.no_profile [where p = p and ?w1.0 = w1])
      (use no_profile(3-) in simp_all)
next
  case (split_raised p w1 e w2)
  show ?thesis
    by (unfold split_raised(1,2), rule exI, rule conjI,
        rule process_profile_run.split_raised [where p = p and ?w1.0 = w1 and ?w2.0 = w2])
      (use split_raised(3-) in simp_all)
next
  case (no_nodes p w1 n w2)
  show ?thesis
    by (unfold no_nodes(1,2), rule exI, rule conjI,
        rule process_profile_run.no_nodes [where p = p and ?w1.0 = w1 and ?w2.0 = w2])
      (use no_nodes(3-) in simp_all)
next
  case (create_raised p w1 n w2 e w3)
  show ?thesis
    by (unfold create_raised(1,2), rule exI, rule conjI,
        rule process_profile_run.create_raised
          [where p = p and ?w1.0 = w1 and ?w2.0 = w2 and ?w3.0 = w3])
      (use create_raised(3-) in simp_all)
next
  case (no_index p w1 n w2 i w3)
  show ?thesis
    by (unfold no_index(1,2), rule exI, rule conjI,
        rule process_profile_run.no_index
          [where p = p and ?w1.0 = w1 and ?w2.0 = w2 and ?w3.0 = w3])
      (use no_index(3-) in simp_all)
next
  case (verify_raised p w1 n w2 i w3 e w4)
  show ?thesis
    by (unfold verify_raised(1,2), rule exI, rule conjI,
        rule process_profile_run.verify_raised
          [where p = p and ?w1.0 = w1 and ?w2.0 = w2 and ?w3.0 = w3 and ?w4.0 = w4])
      (use verify_raised(3-) in \<open>simp_all, simp add: with_verification_verify\<close>)
next
  case (generate_raised p w1 n w2 i w3 v w4 e w5)
  show ?thesis
    by (unfold generate_raised(1,2), rule exI, rule conjI,
        rule process_profile_run.generate_raised
          [where p = p and ?w1.0 = w1 and ?w2.0 = w2 and ?w3.0 = w3 and ?w4.0 = w4
             and ?w5.0 = w5 and v = b])
      (use generate_raised(3-) in \<open>simp_all, simp add: with_verification_verify\<close>)
next
  case (success p w1 n w2 i w3 v w4 facts w5 u w6)
  show ?thesis
    by (unfold success(1,2), rule exI, rule conjI,
        rule process_profile_run.success
          [where p = p and ?w1.0 = w1 and ?w2.0 = w2 and ?w3.0 = w3 and ?w4.0 = w4
             and ?w5.0 = w5 and v = b])
      (use success(3-) in \<open>simp_all, simp add: with_verification_verify\<close>)
qed

lemma verification_result_irrelevant:
  assumes run: "process_profile M linkedin_url api_key use_mock selected_model s = (r, s')"
  shows "\<exists>s''. process_profile (with_verification b M) linkedin_url api_key use_mock
                  selected_model s = (r, s'') \<and>
               world s'' = world s' \<and> active_indices s'' = active_indices s'"
proof -
  from process_profile_run_transfer [OF process_profile_runs [OF run], of b]
  obtain s2 where
    "process_profile_run (with_verification b M) (effective_url use_mock linkedin_url)
       (forwarded_key use_mock api_key) use_mock selected_model s r s2"
    and same: "world s2 = world s'" "active_indices s2 = active_indices s'"
    by blast
  from process_profile_run_complete [OF this(1)] same show ?thesis
    by simp
qed

lemma generates_after_failed_verification:
  assumes run: "process_profile M linkedin_url api_key use_mock selected_model s = (r, s')"
    and failed: "VerifyEmbeddings i (Inr False) \<in> set (new_calls s s')"
  shows "\<exists>res. GenerateInitialFacts i res \<in> set (new_calls s s') \<and>
           (\<forall>facts. res = Inr facts \<longrightarrow>
              (\<exists>u. r = Inr (success_message facts, Some (str_uuid u)) \<and>
                   active_indices s' (str_uuid u) = Some i))"
  using process_profile_runs [OF run] failed
  by cases (auto simp: error_log_def dest: in_model_change_log in_warning_log)

subsection \<open>The handlers on the concrete instance\<close>

lemmas run_defs = process_profile_def process_profile_body_def chat_with_profile_def
  chat_with_profile_body_def try_except_def bindp_def returnp_def external_def logger_def
  new_session_id_def store_index_def get_index_def has_session_def truthy_str_def Let_def
  stub_modules_def initial_state_def stub_start_def stub_session_def

lemma str_uuid_nonempty: "str_uuid u \<noteq> []" "[] \<noteq> str_uuid u"
  by (simp_all add: str_uuid_def Let_def)

lemma stub_run:
  "process_profile stub_modules None (Some ''secret'') True ''ibm/granite-3-2-8b-instruct''
     stub_start
   = (Inr (success_message ''1. Leon'', Some (str_uuid 5)), stub_session)"
  by (simp add: run_defs)

lemma stub_no_key:
  "process_profile stub_modules (Some ''https://www.linkedin.com/in/someone/'') None False
     ''meta-llama/llama-3-3-70b-instruct'' stub_session
   = (Inr (''Error: no key'', None),
      stub_session\<lparr>world := 8,
        calls := calls stub_session @
          [ChangeLlmModel ''meta-llama/llama-3-3-70b-instruct'' (Inr ()),
           ExtractLinkedinProfile (Some ''https://www.linkedin.com/in/someone/'') None False
             (Inl (PyException ''no key'')),
           LoggerError ''Error in process_profile: no key'']\<rparr>)"
  by (simp add: run_defs)

lemma stub_no_key_body:
  "process_profile_body stub_modules (Some ''https://www.linkedin.com/in/someone/'') None False
     ''meta-llama/llama-3-3-70b-instruct'' stub_session
   = (Inl (PyException ''no key''),
      stub_session\<lparr>world := 8,
        calls := calls stub_session @
          [ChangeLlmModel ''meta-llama/llama-3-3-70b-instruct'' (Inr ()),
           ExtractLinkedinProfile (Some ''https://www.linkedin.com/in/someone/'') None False
             (Inl (PyException ''no key''))]\<rparr>)"
  by (simp add: run_defs)

lemma stub_no_profile:
  "process_profile stub_modules None None False ''ibm/granite-3-2-8b-instruct'' stub_session
   = (Inr (no_profile_data, None),
      stub_session\<lparr>world := 7,
        calls := calls stub_session @ [ExtractLinkedinProfile None None False (Inr '''')]\<rparr>)"
  by (simp add: run_defs)

lemma stub_no_nodes:
  "process_profile (stub_modules\<lparr>split_profile_data := \<lambda>p w. (Inr [], w + 1)\<rparr>)
     None None True ''ibm/granite-3-2-8b-instruct'' stub_session
   = (Inr (no_nodes, None),
      stub_session\<lparr>world := 8,
        calls := calls stub_session @
          [ExtractLinkedinProfile (Some default_url) None True (Inr ''Leon''),
           SplitProfileData ''Leon'' (Inr [])]\<rparr>)"
  by (simp add: run_defs)

lemma stub_no_index:
  "process_profile (stub_modules\<lparr>truthy_index := \<lambda>i. False\<rparr>)
     None None True ''ibm/granite-3-2-8b-instruct'' stub_session
   = (Inr (no_index, None),
      stub_session\<lparr>world := 9,
        calls := calls stub_session @
          [ExtractLinkedinProfile (Some default_url) None True (Inr ''Leon''),
           SplitProfileData ''Leon'' (Inr [''Leon'']),
           CreateVectorDatabase [''Leon''] (Inr 1)]\<rparr>)"
  by (simp add: run_defs)

lemma stub_chat_blank:
  "chat_with_profile stub_modules (Some (str_uuid 5)) ''  '' [] stub_session
   = (Inr [], stub_session)"
  by (simp add: run_defs str_uuid_nonempty strip_def py_isspace_def)

lemma stub_chat_no_session:
  "chat_with_profile stub_modules None ''Who?'' [] stub_session
   = (Inr [(''Who?'', no_profile_loaded)], stub_session)"
  by (simp add: run_defs)

lemma length_str_uuid: "length (str_uuid u) = 36"
  by (simp add: str_uuid_def hex32_def Let_def)

lemma stub_session_gone: "active_indices stub_session ''gone'' = None"
proof -
  have "''gone'' \<noteq> str_uuid 5"
  proof
    assume "''gone'' = str_uuid 5"
    then have "length ''gone'' = length (str_uuid 5)"
      by (rule arg_cong)
    then show False
      by (simp add: length_str_uuid)
  qed
  then show ?thesis
    by (simp add: stub_session_def)
qed

lemma stub_chat_expired:
  "chat_with_profile stub_modules (Some ''gone'') ''Who?'' [] stub_session
   = (Inr [(''Who?'', session_expired)], stub_session)"
  using stub_session_gone
  by (simp add: chat_with_profile_def has_session_def truthy_str_def returnp_def)

lemma chat_without_session:
  "chat_with_profile M None user_query chat_history s
   = (Inr (chat_history @ [(user_query, no_profile_loaded)]), s)"
  by (simp add: chat_with_profile_def truthy_str_def returnp_def)

lemma stub_session_ids: "active_indices stub_session [] = None"
  using str_uuid_nonempty [of 5] by (simp add: stub_session_def)

lemma stub_collision:
  "process_profile
     (stub_modules\<lparr>create_vector_database := \<lambda>n w. (Inr 2, w + 1),
        uuid4 := \<lambda>w. (5, w + 1)\<rparr>)
     None None True ''ibm/granite-3-2-8b-instruct'' stub_session
   = (Inr (success_message ''1. Leon'', Some (str_uuid 5)),
      stub_session\<lparr>world := 12,
        calls := calls stub_session @
          [ExtractLinkedinProfile (Some default_url) None True (Inr ''Leon''),
           SplitProfileData ''Leon'' (Inr [''Leon'']),
           CreateVectorDatabase [''Leon''] (Inr 2),
           VerifyEmbeddings 2 (Inr False),
           LoggerWarning ''Some embeddings may be missing or invalid'',
           GenerateInitialFacts 2 (Inr ''1. Leon''),
           Uuid4 5],
        active_indices := (active_indices stub_session)(str_uuid 5 \<mapsto> 2)\<rparr>)"
  by (simp add: run_defs)

lemma stub_chat:
  "chat_with_profile stub_modules (Some (str_uuid 5)) ''Who?'' [] stub_session
   = (Inr [(''Who?'', ''?ohW'')],
      stub_session\<lparr>world := 7,
        calls := calls stub_session @ [AnswerUserQuery 1 ''Who?'' (Inr ''?ohW'')]\<rparr>)"
  by (simp add: run_defs str_uuid_nonempty strip_def py_isspace_def)

lemma stub_chat_raised:
  "chat_with_profile stub_modules (Some (str_uuid 5)) ''boom'' [] stub_session
   = (Inr [(''boom'', ''Error: LLM down'')],
      stub_session\<lparr>world := 7,
        calls := calls stub_session @
          [AnswerUserQuery 1 ''boom'' (Inl (PyException ''LLM down'')),
           LoggerError ''Error in chat_with_profile: LLM down'']\<rparr>)"
  by (simp add: run_defs str_uuid_nonempty strip_def py_isspace_def)

lemma stub_chat_raised_body:
  "chat_with_profile_body stub_modules (Some (str_uuid 5)) ''boom'' [] stub_session
   = (Inl (PyException ''LLM down''),
      stub_session\<lparr>world := 7,
        calls := calls stub_session @
          [AnswerUserQuery 1 ''boom'' (Inl (PyException ''LLM down''))]\<rparr>)"
  by (simp add: run_defs)

subsection \<open>Session identifiers\<close>

text \<open>
  The empty string is never a session identifier: it is none in the initial state, and
  the handlers add only identifiers made by \<open>str_uuid\<close>.
\<close>

lemma initial_state_sessions: "active_indices (initial_state w) [] = None"
  by (simp add: initial_state_def)

lemma process_profile_sessions:
  assumes "process_profile M linkedin_url api_key use_mock selected_model s = (r, s')"
    and "active_indices s [] = None"
  shows "active_indices s' [] = None"
  using process_profile_runs [OF assms(1)] assms(2) str_uuid_nonempty
  by cases (simp_all add: fun_upd_apply)

lemma chat_with_profile_sessions:
  assumes "chat_with_profile M session_id user_query chat_history s = (r, s')"
  shows "active_indices s' = active_indices s"
  using chat_with_profile_runs [OF assms]
  by cases simp_all

text \<open>No handler removes a session: a key of the dictionary stays one.\<close>

lemma process_profile_keeps_keys:
  assumes "process_profile M linkedin_url api_key use_mock selected_model s = (r, s')"
  shows "dom (active_indices s) \<subseteq> dom (active_indices s')"
  using process_profile_runs [OF assms]
  by cases auto

section \<open>The claims\<close>

text \<open>
  In all of the following, \<open>s\<close> is the state a handler is called in and \<open>s'\<close> the
  state it leaves; a handler returns \<open>Inr\<close> of its Python result, and would return
  \<open>Inl e\<close> if it let the exception \<open>e\<close> through. The arguments have the types the
  handlers are written for: the URL, the API key and the session identifier are a string
  or \<^verbatim>\<open>None\<close>, the query is a string and the chat history a list of pairs.
\<close>

text \<open>
  C1. When \<^verbatim>\<open>process_profile\<close> succeeds (it returns a session identifier), the
  calls it made are, in this order: \<^verbatim>\<open>change_llm_model\<close> if the model differs,
  then \<^verbatim>\<open>extract_linkedin_profile\<close>, then \<^verbatim>\<open>split_profile_data\<close> on the
  profile returned, then \<^verbatim>\<open>create_vector_database\<close> on the nodes returned, then
  \<^verbatim>\<open>verify_embeddings\<close> on the index returned, then
  \<^verbatim>\<open>generate_initial_facts\<close> on that index, then \<^verbatim>\<open>uuid4\<close>; each call acts
  on the world the call before it left, and the message returned holds the facts.
\<close>

theorem pipeline_order:
  assumes "process_profile M linkedin_url api_key use_mock selected_model s
             = (Inr (msg, Some session_id), s')"
  shows "\<exists>p w1 n w2 i w3 v w4 facts w5 u.
           extract_linkedin_profile M (effective_url use_mock linkedin_url)
             (forwarded_key use_mock api_key) use_mock (model_change_world M selected_model s)
             = (Inr p, w1) \<and>
           split_profile_data M p w1 = (Inr n, w2) \<and>
           create_vector_database M n w2 = (Inr i, w3) \<and>
           verify_embeddings M i w3 = (Inr v, w4) \<and>
           generate_initial_facts M i w4 = (Inr facts, w5) \<and>
           uuid4 M w5 = (u, world s') \<and>
           msg = success_message facts \<and>
           new_calls s s' =
             model_change_log M selected_model s @
             [ExtractLinkedinProfile (effective_url use_mock linkedin_url)
                (forwarded_key use_mock api_key) use_mock (Inr p),
              SplitProfileData p (Inr n), CreateVectorDatabase n (Inr i),
              VerifyEmbeddings i (Inr v)] @ warning_log v @
             [GenerateInitialFacts i (Inr facts), Uuid4 u]"
  using process_profile_runs [OF assms]
proof cases
  case (success p w1 n w2 i w3 v w4 facts w5 u w6)
  then show ?thesis
    by (intro exI [where x = p] exI [where x = w1] exI [where x = n] exI [where x = w2]
        exI [where x = i] exI [where x = w3] exI [where x = v] exI [where x = w4]
        exI [where x = facts] exI [where x = w5] exI [where x = u]) simp
qed (simp_all add: error_result_def)

theorem pipeline_order_witness:
  "process_profile stub_modules None (Some ''secret'') True ''ibm/granite-3-2-8b-instruct''
     stub_start
     = (Inr (success_message ''1. Leon'', Some (str_uuid 5)), stub_session) \<and>
   (\<exists>p w1 n w2 i w3 v w4 facts w5 u.
      extract_linkedin_profile stub_modules (effective_url True None)
        (forwarded_key True (Some ''secret'')) True
        (model_change_world stub_modules ''ibm/granite-3-2-8b-instruct'' stub_start)
        = (Inr p, w1) \<and>
      split_profile_data stub_modules p w1 = (Inr n, w2) \<and>
      create_vector_database stub_modules n w2 = (Inr i, w3) \<and>
      verify_embeddings stub_modules i w3 = (Inr v, w4) \<and>
      generate_initial_facts stub_modules i w4 = (Inr facts, w5) \<and>
      uuid4 stub_modules w5 = (u, world stub_session) \<and>
      success_message ''1. Leon'' = success_message facts \<and>
      new_calls stub_start stub_session =
        model_change_log stub_modules ''ibm/granite-3-2-8b-instruct'' stub_start @
        [ExtractLinkedinProfile (effective_url True None)
           (forwarded_key True (Some ''secret'')) True (Inr p),
         SplitProfileData p (Inr n), CreateVectorDatabase n (Inr i),
         VerifyEmbeddings i (Inr v)] @ warning_log v @
        [GenerateInitialFacts i (Inr facts), Uuid4 u])"
  using stub_run pipeline_order [OF stub_run] by (rule conjI)

text \<open>
  C2. \<^verbatim>\<open>process_profile\<close> and \<^verbatim>\<open>chat_with_profile\<close> always return and
  never let an exception through. When the \<^verbatim>\<open>try\<close> block of
  \<^verbatim>\<open>process_profile\<close> raises \<open>e\<close>, the handler returns \<^verbatim>\<open>"Error: " + str(e)\<close>
  and \<^verbatim>\<open>None\<close>; when the profile, the nodes or the index that a stage returned
  counts as false, it returns the message of that stage and \<^verbatim>\<open>None\<close>. When the
  \<^verbatim>\<open>try\<close> block of \<^verbatim>\<open>chat_with_profile\<close> raises \<open>e\<close>, the handler
  returns the history with the pair of the query and \<^verbatim>\<open>"Error: " + str(e)\<close> appended.
\<close>

theorem failures_are_returned:
  assumes "process_profile M linkedin_url api_key use_mock selected_model s = (r, s')"
    and "chat_with_profile M session_id user_query chat_history t = (r', t')"
  shows "(\<exists>msg sid. r = Inr (msg, sid)) \<and>
         (\<forall>e s1. process_profile_body M linkedin_url api_key use_mock selected_model s
                    = (Inl e, s1) \<longrightarrow>
            r = Inr (''Error: '' @ str_exc e, None)) \<and>
         (\<forall>url key mock p. ExtractLinkedinProfile url key mock (Inr p) \<in> set (new_calls s s')
              \<and> \<not> truthy_profile M p \<longrightarrow>
            r = Inr (no_profile_data, None)) \<and>
         (\<forall>p n. SplitProfileData p (Inr n) \<in> set (new_calls s s') \<and> \<not> truthy_nodes M n \<longrightarrow>
            r = Inr (no_nodes, None)) \<and>
         (\<forall>n i. CreateVectorDatabase n (Inr i) \<in> set (new_calls s s') \<and> \<not> truthy_index M i \<longrightarrow>
            r = Inr (no_index, None)) \<and>
         (\<exists>h. r' = Inr h) \<and>
         (\<forall>e t1. chat_with_profile_body M session_id user_query chat_history t = (Inl e, t1)
              \<and> truthy_str session_id \<and> has_session session_id (active_indices t)
              \<and> strip user_query \<noteq> [] \<longrightarrow>
            r' = Inr (chat_history @ [(user_query, ''Error: '' @ str_exc e)]))"
proof (intro conjI allI impI)
  show "\<exists>msg sid. r = Inr (msg, sid)"
    using process_profile_runs [OF assms(1)] by cases (simp_all add: error_result_def)
  show "\<exists>h. r' = Inr h"
    using chat_with_profile_runs [OF assms(2)] by cases (simp_all add: chat_error_result_def)
next
  fix e s1
  assume "process_profile_body M linkedin_url api_key use_mock selected_model s = (Inl e, s1)"
  from process_profile_body_raised [OF this] assms(1)
  show "r = Inr (''Error: '' @ str_exc e, None)"
    by (simp add: error_result_def)
next
  fix e t1
  assume "chat_with_profile_body M session_id user_query chat_history t = (Inl e, t1)
    \<and> truthy_str session_id \<and> has_session session_id (active_indices t)
    \<and> strip user_query \<noteq> []"
  then show "r' = Inr (chat_history @ [(user_query, ''Error: '' @ str_exc e)])"
    using chat_with_profile_body_raised [of M session_id user_query chat_history t e t1] assms(2)
    by (simp add: chat_error_result_def)
next
  fix url key mock p
  assume "ExtractLinkedinProfile url key mock (Inr p) \<in> set (new_calls s s')
    \<and> \<not> truthy_profile M p"
  with process_profile_runs [OF assms(1)] show "r = Inr (no_profile_data, None)"
    by cases (auto simp: error_log_def dest: in_model_change_log in_warning_log)
next
  fix p n
  assume "SplitProfileData p (Inr n) \<in> set (new_calls s s') \<and> \<not> truthy_nodes M n"
  with process_profile_runs [OF assms(1)] show "r = Inr (no_nodes, None)"
    by cases (auto simp: error_log_def dest: in_model_change_log in_warning_log)
next
  fix n i
  assume "CreateVectorDatabase n (Inr i) \<in> set (new_calls s s') \<and> \<not> truthy_index M i"
  with process_profile_runs [OF assms(1)] show "r = Inr (no_index, None)"
    by cases (auto simp: error_log_def dest: in_model_change_log in_warning_log)
qed

theorem failures_are_returned_witness:
  "fst (process_profile stub_modules (Some ''https://www.linkedin.com/in/someone/'') None False
          ''meta-llama/llama-3-3-70b-instruct'' stub_session)
     = Inr (''Error: no key'', None) \<and>
   fst (process_profile stub_modules None None False ''ibm/granite-3-2-8b-instruct''
          stub_session)
     = Inr (no_profile_data, None) \<and>
   fst (process_profile (stub_modules\<lparr>split_profile_data := \<lambda>p w. (Inr [], w + 1)\<rparr>)
          None None True ''ibm/granite-3-2-8b-instruct'' stub_session)
     = Inr (no_nodes, None) \<and>
   fst (process_profile (stub_modules\<lparr>truthy_index := \<lambda>i. False\<rparr>)
          None None True ''ibm/granite-3-2-8b-instruct'' stub_session)
     = Inr (no_index, None) \<and>
   fst (chat_with_profile stub_modules (Some (str_uuid 5)) ''boom'' [] stub_session)
     = Inr [(''boom'', ''Error: LLM down'')]"
proof (intro conjI)
  note raised = failures_are_returned [OF stub_no_key stub_chat_raised]
  from raised stub_no_key_body
  have "Inr (''Error: no key'', None) = Inr (''Error: '' @ str_exc (PyException ''no key''), None)"
    by simp
  with stub_no_key
  show "fst (process_profile stub_modules (Some ''https://www.linkedin.com/in/someone/'') None
          False ''meta-llama/llama-3-3-70b-instruct'' stub_session)
        = Inr (''Error: no key'', None)"
    by simp
  from raised stub_chat_raised_body
  have "Inr [(''boom'', ''Error: LLM down'')]
          = Inr ([] @ [(''boom'', ''Error: '' @ str_exc (PyException ''LLM down''))])"
    by simp
  with stub_chat_raised
  show "fst (chat_with_profile stub_modules (Some (str_uuid 5)) ''boom'' [] stub_session)
        = Inr [(''boom'', ''Error: LLM down'')]"
    by simp
next
  note falsy = failures_are_returned [OF stub_no_profile stub_chat_raised]
  have "ExtractLinkedinProfile None None False (Inr '''')
          \<in> set (new_calls stub_session
               (snd (process_profile stub_modules None None False
                  ''ibm/granite-3-2-8b-instruct'' stub_session)))
        \<and> \<not> truthy_profile stub_modules ''''"
    unfolding stub_no_profile by (simp add: new_calls_def stub_modules_def)
  with falsy stub_no_profile
  show "fst (process_profile stub_modules None None False ''ibm/granite-3-2-8b-instruct''
          stub_session)
        = Inr (no_profile_data, None)"
    by simp
next
  let ?M = "stub_modules\<lparr>split_profile_data := \<lambda>p w. (Inr [], w + 1)\<rparr>"
  note falsy = failures_are_returned [OF stub_no_nodes chat_without_session]
  have "SplitProfileData ''Leon'' (Inr [])
          \<in> set (new_calls stub_session
               (snd (process_profile ?M None None True ''ibm/granite-3-2-8b-instruct''
                  stub_session)))
        \<and> \<not> truthy_nodes ?M []"
    unfolding stub_no_nodes by (simp add: new_calls_def stub_modules_def)
  with falsy stub_no_nodes
  show "fst (process_profile ?M None None True ''ibm/granite-3-2-8b-instruct'' stub_session)
        = Inr (no_nodes, None)"
    by simp
next
  let ?M = "stub_modules\<lparr>truthy_index := \<lambda>i. False\<rparr>"
  note falsy = failures_are_returned [OF stub_no_index chat_without_session]
  have "CreateVectorDatabase [''Leon''] (Inr 1)
          \<in> set (new_calls stub_session
               (snd (process_profile ?M None None True ''ibm/granite-3-2-8b-instruct''
                  stub_session)))
        \<and> \<not> truthy_index ?M 1"
    unfolding stub_no_index by (simp add: new_calls_def stub_modules_def)
  with falsy stub_no_index
  show "fst (process_profile ?M None None True ''ibm/granite-3-2-8b-instruct'' stub_session)
        = Inr (no_index, None)"
    by simp
qed

text \<open>
  C3, as amended. In a state where the empty string is not a session identifier (the
  initial state is one, and both handlers keep it so): when \<^verbatim>\<open>session_id\<close> is a
  key of \<^verbatim>\<open>active_indices\<close> and the query is not blank, \<^verbatim>\<open>chat_with_profile\<close>
  makes one call, \<^verbatim>\<open>answer_user_query\<close> on the index stored under that key and
  the query, and the reply appended comes from that call; when the query is blank it makes
  no call and returns the history as it is. When \<^verbatim>\<open>session_id\<close> is \<^verbatim>\<open>None\<close>
  or empty it appends the "No profile loaded" message, and when it is a non-empty string
  that is not a key it appends the "Session expired" message, both without any call.
\<close>

theorem chat_routing:
  assumes "chat_with_profile M session_id user_query chat_history s = (r, s')"
    and "active_indices s [] = None"
  shows "(\<forall>k index. session_id = Some k \<and> active_indices s k = Some index \<longrightarrow>
            (if strip user_query = [] then r = Inr chat_history \<and> new_calls s s' = []
             else \<exists>res. answer_user_query M index user_query (world s) = (res, world s') \<and>
                    r = Inr (chat_history @ [(user_query, reply_of M res)]) \<and>
                    filter (\<lambda>c. callee_of c \<noteq> LoggerFn) (new_calls s s')
                      = [AnswerUserQuery index user_query res])) \<and>
         (\<not> truthy_str session_id \<longrightarrow>
            r = Inr (chat_history @ [(user_query, no_profile_loaded)]) \<and> new_calls s s' = []) \<and>
         (\<forall>k. session_id = Some k \<and> k \<noteq> [] \<and> k \<notin> dom (active_indices s) \<longrightarrow>
            r = Inr (chat_history @ [(user_query, session_expired)]) \<and> new_calls s s' = [])"
  using chat_with_profile_runs [OF assms(1)] assms(2)
  by cases
    (auto simp: chat_error_result_def chat_error_log_def has_session_def truthy_str_def
      reply_of_def new_calls_def split: option.splits)

theorem chat_routing_witness:
  "(\<exists>res. answer_user_query stub_modules 1 ''Who?'' (world stub_session) = (res, 7) \<and>
      (Inr [(''Who?'', ''?ohW'')] :: pyexc + (string \<times> string) list)
        = Inr ([] @ [(''Who?'', reply_of stub_modules res)]) \<and>
      [AnswerUserQuery 1 ''Who?'' (Inr ''?ohW'')] = [AnswerUserQuery 1 ''Who?'' res]) \<and>
   fst (chat_with_profile stub_modules None ''Who?'' [] stub_session)
     = Inr ([] @ [(''Who?'', no_profile_loaded)]) \<and>
   fst (chat_with_profile stub_modules (Some ''gone'') ''Who?'' [] stub_session)
     = Inr ([] @ [(''Who?'', session_expired)])"
proof (intro conjI)
  from chat_routing [OF stub_chat stub_session_ids]
  show "\<exists>res. answer_user_query stub_modules 1 ''Who?'' (world stub_session) = (res, 7) \<and>
      (Inr [(''Who?'', ''?ohW'')] :: pyexc + (string \<times> string) list)
        = Inr ([] @ [(''Who?'', reply_of stub_modules res)]) \<and>
      [AnswerUserQuery 1 ''Who?'' (Inr ''?ohW'')] = [AnswerUserQuery 1 ''Who?'' res]"
    by (simp add: stub_session_def new_calls_def strip_def py_isspace_def)
  from chat_routing [OF stub_chat_no_session stub_session_ids]
  show "fst (chat_with_profile stub_modules None ''Who?'' [] stub_session)
     = Inr ([] @ [(''Who?'', no_profile_loaded)])"
    by (simp add: stub_chat_no_session truthy_str_def)
  have "''gone'' \<notin> dom (active_indices stub_session)"
    using stub_session_gone by (simp add: domIff)
  with chat_routing [OF stub_chat_expired stub_session_ids]
  show "fst (chat_with_profile stub_modules (Some ''gone'') ''Who?'' [] stub_session)
     = Inr ([] @ [(''Who?'', session_expired)])"
    by (simp add: stub_chat_expired)
qed

text \<open>
  C3 as it was stated fails for a blank query: with a session identifier that is a key and
  a query of two spaces, no reply is appended and \<^verbatim>\<open>answer_user_query\<close> is not
  called (the state, and with it the log, is as before).
\<close>

theorem chat_routing_counterexample:
  "active_indices stub_session (str_uuid 5) = Some 1 \<and>
   chat_with_profile stub_modules (Some (str_uuid 5)) ''  '' [] stub_session
     = (Inr [], stub_session) \<and>
   \<not> (\<exists>reply. fst (chat_with_profile stub_modules (Some (str_uuid 5)) ''  '' [] stub_session)
          = Inr ([] @ [(''  '', reply)])) \<and>
   new_calls stub_session
     (snd (chat_with_profile stub_modules (Some (str_uuid 5)) ''  '' [] stub_session)) = []"
proof (intro conjI)
  show "active_indices stub_session (str_uuid 5) = Some 1"
    by (simp add: stub_session_def)
qed (simp_all add: stub_chat_blank new_calls_def)

text \<open>
  C4. When \<^verbatim>\<open>use_mock\<close> is true, every call of \<^verbatim>\<open>extract_linkedin_profile\<close>
  that \<^verbatim>\<open>process_profile\<close> makes has the API key \<^verbatim>\<open>None\<close>, \<^verbatim>\<open>mock=True\<close>,
  and as its URL the one given, or, when none was given, the URL
  \<^verbatim>\<open>https://www.linkedin.com/in/leonkatsnelson/\<close>; and unless \<^verbatim>\<open>change_llm_model\<close>
  raised before, it makes exactly one such call.
\<close>

theorem mock_arguments:
  assumes "process_profile M linkedin_url api_key use_mock selected_model s = (r, s')"
    and "use_mock"
  shows "(\<forall>url key mock res.
            ExtractLinkedinProfile url key mock res \<in> set (new_calls s s') \<longrightarrow>
            url = (if truthy_str linkedin_url then linkedin_url
                   else Some ''https://www.linkedin.com/in/leonkatsnelson/'') \<and>
            key = None \<and> mock) \<and>
         (model_change_result M selected_model s = Inr () \<longrightarrow>
            (\<exists>res. filter (\<lambda>c. callee_of c = ExtractLinkedinProfileFn) (new_calls s s') =
               [ExtractLinkedinProfile
                  (if truthy_str linkedin_url then linkedin_url
                   else Some ''https://www.linkedin.com/in/leonkatsnelson/'')
                  None True res]))"
proof (rule conjI)
  show "\<forall>url key mock res.
            ExtractLinkedinProfile url key mock res \<in> set (new_calls s s') \<longrightarrow>
            url = (if truthy_str linkedin_url then linkedin_url
                   else Some ''https://www.linkedin.com/in/leonkatsnelson/'') \<and>
            key = None \<and> mock"
  proof (intro allI impI)
    fix url key mock res
    assume "ExtractLinkedinProfile url key mock res \<in> set (new_calls s s')"
    with process_profile_runs [OF assms(1)] assms(2)
    show "url = (if truthy_str linkedin_url then linkedin_url
                 else Some ''https://www.linkedin.com/in/leonkatsnelson/'') \<and>
          key = None \<and> mock"
      by cases
        (auto simp: error_log_def effective_url_def forwarded_key_def default_url_def
          dest: in_model_change_log in_warning_log)
  qed
  show "model_change_result M selected_model s = Inr () \<longrightarrow>
            (\<exists>res. filter (\<lambda>c. callee_of c = ExtractLinkedinProfileFn) (new_calls s s') =
               [ExtractLinkedinProfile
                  (if truthy_str linkedin_url then linkedin_url
                   else Some ''https://www.linkedin.com/in/leonkatsnelson/'')
                  None True res])"
  proof
    assume ok: "model_change_result M selected_model s = Inr ()"
    have pre: "filter (\<lambda>c. callee_of c = ExtractLinkedinProfileFn)
                 (model_change_log M selected_model s) = []"
      by (simp add: model_change_log_def)
    have warn: "\<And>v. filter (\<lambda>c. callee_of c = ExtractLinkedinProfileFn)
                 (warning_log v :: ('b, 'c, 'd, 'e) call list) = []"
      by (simp add: warning_log_def)
    from process_profile_runs [OF assms(1)] ok assms(2)
    show "\<exists>res. filter (\<lambda>c. callee_of c = ExtractLinkedinProfileFn) (new_calls s s') =
            [ExtractLinkedinProfile
               (if truthy_str linkedin_url then linkedin_url
                else Some ''https://www.linkedin.com/in/leonkatsnelson/'')
               None True res]"
      by cases
        (auto simp: error_log_def effective_url_def forwarded_key_def default_url_def pre warn)
  qed
qed

theorem mock_arguments_witness:
  "ExtractLinkedinProfile (Some ''https://www.linkedin.com/in/leonkatsnelson/'') None True
     (Inr ''Leon'')
     \<in> set (new_calls stub_start stub_session) \<and>
   (\<exists>res. filter (\<lambda>c. callee_of c = ExtractLinkedinProfileFn)
            (new_calls stub_start stub_session) =
          [ExtractLinkedinProfile (Some ''https://www.linkedin.com/in/leonkatsnelson/'') None
             True res])"
proof -
  have called: "ExtractLinkedinProfile (Some ''https://www.linkedin.com/in/leonkatsnelson/'')
      None True (Inr ''Leon'')
      \<in> set (new_calls stub_start stub_session)"
    by (simp add: new_calls_def initial_state_def stub_start_def stub_session_def
        default_url_def)
  have unchanged: "model_change_result stub_modules ''ibm/granite-3-2-8b-instruct''
      stub_start = Inr ()"
    by (simp add: model_change_result_def stub_modules_def stub_start_def initial_state_def)
  from mock_arguments [OF stub_run TrueI] called unchanged show ?thesis
    by (simp add: truthy_str_def)
qed

text \<open>
  C5, as amended. When \<^verbatim>\<open>process_profile\<close> succeeds, the session identifier it
  returns is \<^verbatim>\<open>str\<close> of the identifier \<^verbatim>\<open>uuid4\<close> gave in this call, and the
  dictionary it leaves is the one it found with that identifier mapped to the index built
  in this call, so the identifier returned is a key of it. When the identifier was not a
  key before, it is the one key added; when it was one already (lines 80 to 83 do not
  look), no key is added and the index stored under it is replaced.
\<close>

theorem session_stored:
  assumes "process_profile M linkedin_url api_key use_mock selected_model s
             = (Inr (msg, Some session_id), s')"
  shows "\<exists>n i u.
           CreateVectorDatabase n (Inr i) \<in> set (new_calls s s') \<and>
           Uuid4 u \<in> set (new_calls s s') \<and>
           session_id = str_uuid u \<and>
           active_indices s' = (active_indices s)(session_id \<mapsto> i) \<and>
           session_id \<in> dom (active_indices s') \<and>
           (session_id \<notin> dom (active_indices s) \<longrightarrow>
              dom (active_indices s') - dom (active_indices s) = {session_id}) \<and>
           (session_id \<in> dom (active_indices s) \<longrightarrow>
              dom (active_indices s') = dom (active_indices s))"
  using process_profile_runs [OF assms]
proof cases
  case (success p w1 n w2 i w3 v w4 facts w5 u w6)
  then show ?thesis
    by (intro exI [where x = n] exI [where x = i] exI [where x = u]) auto
qed (simp_all add: error_result_def)

theorem session_stored_witness:
  "str_uuid 5 \<notin> dom (active_indices stub_start) \<and>
   (\<exists>n i u.
      CreateVectorDatabase n (Inr i) \<in> set (new_calls stub_start stub_session) \<and>
      Uuid4 u \<in> set (new_calls stub_start stub_session) \<and>
      str_uuid 5 = str_uuid u \<and>
      active_indices stub_session = (active_indices stub_start)(str_uuid 5 \<mapsto> i) \<and>
      str_uuid 5 \<in> dom (active_indices stub_session) \<and>
      (str_uuid 5 \<notin> dom (active_indices stub_start) \<longrightarrow>
         dom (active_indices stub_session) - dom (active_indices stub_start)
           = {str_uuid 5}) \<and>
      (str_uuid 5 \<in> dom (active_indices stub_start) \<longrightarrow>
         dom (active_indices stub_session) = dom (active_indices stub_start)))"
proof
  show "str_uuid 5 \<notin> dom (active_indices stub_start)"
    by (simp add: initial_state_def stub_start_def)
  show "\<exists>n i u.
      CreateVectorDatabase n (Inr i) \<in> set (new_calls stub_start stub_session) \<and>
      Uuid4 u \<in> set (new_calls stub_start stub_session) \<and>
      str_uuid 5 = str_uuid u \<and>
      active_indices stub_session = (active_indices stub_start)(str_uuid 5 \<mapsto> i) \<and>
      str_uuid 5 \<in> dom (active_indices stub_session) \<and>
      (str_uuid 5 \<notin> dom (active_indices stub_start) \<longrightarrow>
         dom (active_indices stub_session) - dom (active_indices stub_start)
           = {str_uuid 5}) \<and>
      (str_uuid 5 \<in> dom (active_indices stub_start) \<longrightarrow>
         dom (active_indices stub_session) = dom (active_indices stub_start))"
    using session_stored [OF stub_run] .
qed

text \<open>
  C5 as it was stated fails when \<^verbatim>\<open>uuid4\<close> gives an identifier that is a key
  already: the call succeeds and returns that identifier, the dictionary has the same
  keys as before, and the index 1 that was stored under it is replaced by the index 2
  built in this call.
\<close>

theorem session_stored_counterexample:
  "fst (process_profile
          (stub_modules\<lparr>create_vector_database := \<lambda>n w. (Inr 2, w + 1),
             uuid4 := \<lambda>w. (5, w + 1)\<rparr>)
          None None True ''ibm/granite-3-2-8b-instruct'' stub_session)
     = Inr (success_message ''1. Leon'', Some (str_uuid 5)) \<and>
   active_indices stub_session (str_uuid 5) = Some 1 \<and>
   active_indices
     (snd (process_profile
             (stub_modules\<lparr>create_vector_database := \<lambda>n w. (Inr 2, w + 1),
                uuid4 := \<lambda>w. (5, w + 1)\<rparr>)
             None None True ''ibm/granite-3-2-8b-instruct'' stub_session)) (str_uuid 5)
     = Some 2 \<and>
   dom (active_indices
     (snd (process_profile
             (stub_modules\<lparr>create_vector_database := \<lambda>n w. (Inr 2, w + 1),
                uuid4 := \<lambda>w. (5, w + 1)\<rparr>)
             None None True ''ibm/granite-3-2-8b-instruct'' stub_session)))
     - dom (active_indices stub_session) = {}"
  unfolding stub_collision by (simp add: stub_session_def)

text \<open>
  C6. In one call of \<^verbatim>\<open>process_profile\<close> or of \<^verbatim>\<open>chat_with_profile\<close>, every
  imported function is called at most once, and after a call that failed (it raised, or
  returned what the handler takes for a failure) the handler calls nothing but the logger.
\<close>

theorem no_retry:
  assumes "process_profile M linkedin_url api_key use_mock selected_model s = (r, s')"
    and "chat_with_profile M session_id user_query chat_history t = (r', t')"
  shows "\<forall>cs \<in> {new_calls s s', new_calls t t'}.
           (\<forall>f. f \<noteq> LoggerFn \<longrightarrow> length (filter (\<lambda>c. callee_of c = f) cs) \<le> 1) \<and>
           (\<forall>xs c ys. cs = xs @ c # ys \<and> failed M c \<longrightarrow>
              (\<forall>y \<in> set ys. callee_of y = LoggerFn))"
proof
  fix cs
  assume "cs \<in> {new_calls s s', new_calls t t'}"
  then have "distinct (map callee_of (filter (\<lambda>c. callee_of c \<noteq> LoggerFn) cs))"
    and "ends_at_failure M cs"
    using process_profile_calls_distinct [OF assms(1)]
      process_profile_ends_at_failure [OF assms(1)]
      chat_with_profile_calls_distinct [OF assms(2)]
      chat_with_profile_ends_at_failure [OF assms(2)]
    by auto
  then show "(\<forall>f. f \<noteq> LoggerFn \<longrightarrow> length (filter (\<lambda>c. callee_of c = f) cs) \<le> 1) \<and>
           (\<forall>xs c ys. cs = xs @ c # ys \<and> failed M c \<longrightarrow>
              (\<forall>y \<in> set ys. callee_of y = LoggerFn))"
    using at_most_once_calls ends_at_failureD by blast
qed

theorem no_retry_witness:
  "length (filter (\<lambda>c. callee_of c = ExtractLinkedinProfileFn)
     [ChangeLlmModel ''meta-llama/llama-3-3-70b-instruct'' (Inr ()),
      ExtractLinkedinProfile (Some ''https://www.linkedin.com/in/someone/'') None False
        (Inl (PyException ''no key'')),
      LoggerError ''Error in process_profile: no key'' :: (string, string list, nat, string) call])
     \<le> 1 \<and>
   callee_of (LoggerError ''Error in chat_with_profile: LLM down''
       :: (string, string list, nat, string) call) = LoggerFn"
proof -
  let ?pp = "[ChangeLlmModel ''meta-llama/llama-3-3-70b-instruct'' (Inr ()),
      ExtractLinkedinProfile (Some ''https://www.linkedin.com/in/someone/'') None False
        (Inl (PyException ''no key'')),
      LoggerError ''Error in process_profile: no key'']
      :: (string, string list, nat, string) call list"
  let ?chat = "[AnswerUserQuery 1 ''boom'' (Inl (PyException ''LLM down'')),
      LoggerError ''Error in chat_with_profile: LLM down'']
      :: (string, string list, nat, string) call list"
  let ?s = "stub_session\<lparr>world := 8, calls := calls stub_session @ ?pp\<rparr>"
  let ?t = "stub_session\<lparr>world := 7, calls := calls stub_session @ ?chat\<rparr>"
  note all = no_retry [OF stub_no_key stub_chat_raised]
  have pp: "new_calls stub_session ?s = ?pp" and chat: "new_calls stub_session ?t = ?chat"
    by (simp_all add: new_calls_def)
  from all have "\<forall>f. f \<noteq> LoggerFn \<longrightarrow>
      length (filter (\<lambda>c. callee_of c = f) (new_calls stub_session ?s)) \<le> 1"
    by blast
  then have one: "length (filter (\<lambda>c. callee_of c = ExtractLinkedinProfileFn) ?pp) \<le> 1"
    unfolding pp by blast
  from all have "\<forall>xs c ys. new_calls stub_session ?t = xs @ c # ys \<and> failed stub_modules c \<longrightarrow>
      (\<forall>y \<in> set ys. callee_of y = LoggerFn)"
    by blast
  then have "?chat = [] @ AnswerUserQuery 1 ''boom'' (Inl (PyException ''LLM down''))
        # [LoggerError ''Error in chat_with_profile: LLM down'']
      \<and> failed stub_modules (AnswerUserQuery 1 ''boom'' (Inl (PyException ''LLM down'')))
      \<longrightarrow> (\<forall>y \<in> set [LoggerError ''Error in chat_with_profile: LLM down''
              :: (string, string list, nat, string) call]. callee_of y = LoggerFn)"
    unfolding chat by blast
  then have "callee_of (LoggerError ''Error in chat_with_profile: LLM down''
       :: (string, string list, nat, string) call) = LoggerFn"
    by simp
  with one show ?thesis
    by (rule conjI)
qed

text \<open>
  C7. \<^verbatim>\<open>chat_with_profile\<close> returns the history it was given, either as it is, and
  then the query is empty or white space only, or with one pair of the query and a reply
  appended; the entries it was given stay as they are. It leaves \<^verbatim>\<open>active_indices\<close>
  as it found it.
\<close>

theorem chat_frame:
  assumes "chat_with_profile M session_id user_query chat_history s = (r, s')"
  shows "\<exists>h. r = Inr h \<and>
           (h = chat_history \<and> (\<forall>c \<in> set user_query. py_isspace c) \<or>
            (\<exists>reply. h = chat_history @ [(user_query, reply)])) \<and>
           take (length chat_history) h = chat_history \<and>
           active_indices s' = active_indices s"
  using chat_with_profile_runs [OF assms]
  by cases (auto simp: chat_error_result_def strip_empty_iff)

theorem chat_frame_witness:
  "chat_with_profile stub_modules (Some (str_uuid 5)) ''Who?'' [(''Hi'', ''iH'')] stub_session
     = (Inr [(''Hi'', ''iH''), (''Who?'', ''?ohW'')],
        stub_session\<lparr>world := 7,
          calls := calls stub_session @ [AnswerUserQuery 1 ''Who?'' (Inr ''?ohW'')]\<rparr>) \<and>
   (\<exists>h. (Inr [(''Hi'', ''iH''), (''Who?'', ''?ohW'')] :: pyexc + (string \<times> string) list) = Inr h \<and>
      (h = [(''Hi'', ''iH'')] \<and> (\<forall>c \<in> set ''Who?''. py_isspace c) \<or>
       (\<exists>reply. h = [(''Hi'', ''iH'')] @ [(''Who?'', reply)])) \<and>
      take (length [(''Hi'', ''iH'')]) h = [(''Hi'', ''iH'')] \<and>
      active_indices
        (stub_session\<lparr>world := 7,
           calls := calls stub_session @ [AnswerUserQuery 1 ''Who?'' (Inr ''?ohW'')]\<rparr>)
        = active_indices stub_session)"
proof -
  have run: "chat_with_profile stub_modules (Some (str_uuid 5)) ''Who?'' [(''Hi'', ''iH'')]
      stub_session
     = (Inr [(''Hi'', ''iH''), (''Who?'', ''?ohW'')],
        stub_session\<lparr>world := 7,
          calls := calls stub_session @ [AnswerUserQuery 1 ''Who?'' (Inr ''?ohW'')]\<rparr>)"
    by (simp add: run_defs str_uuid_nonempty strip_def py_isspace_def)
  from run chat_frame [OF run] show ?thesis
    by (rule conjI)
qed

text \<open>
  C8. When \<^verbatim>\<open>process_profile\<close> returns \<^verbatim>\<open>None\<close> as the session identifier, it
  leaves \<^verbatim>\<open>active_indices\<close> as it found it.
\<close>

theorem failure_leaves_sessions:
  assumes "process_profile M linkedin_url api_key use_mock selected_model s
             = (Inr (msg, None), s')"
  shows "active_indices s' = active_indices s"
  using process_profile_runs [OF assms]
  by cases (simp_all add: error_result_def)

theorem failure_leaves_sessions_witness:
  "active_indices
     (stub_session\<lparr>world := 8,
        calls := calls stub_session @
          [ChangeLlmModel ''meta-llama/llama-3-3-70b-instruct'' (Inr ()),
           ExtractLinkedinProfile (Some ''https://www.linkedin.com/in/someone/'') None False
             (Inl (PyException ''no key'')),
           LoggerError ''Error in process_profile: no key'']\<rparr>)
     = active_indices stub_session \<and>
   active_indices stub_session (str_uuid 5) = Some 1"
proof
  show "active_indices
     (stub_session\<lparr>world := 8,
        calls := calls stub_session @
          [ChangeLlmModel ''meta-llama/llama-3-3-70b-instruct'' (Inr ()),
           ExtractLinkedinProfile (Some ''https://www.linkedin.com/in/someone/'') None False
             (Inl (PyException ''no key'')),
           LoggerError ''Error in process_profile: no key'']\<rparr>)
     = active_indices stub_session"
    using failure_leaves_sessions [OF stub_no_key] .
  show "active_indices stub_session (str_uuid 5) = Some 1"
    by (simp add: stub_session_def)
qed

text \<open>
  C9. When \<^verbatim>\<open>verify_embeddings\<close> returned false, \<^verbatim>\<open>process_profile\<close> goes on
  to call \<^verbatim>\<open>generate_initial_facts\<close> on the index, and when that call returns the
  facts, it returns the success message with them and a session identifier under which
  the index is stored. What \<^verbatim>\<open>process_profile\<close> returns, the dictionary and the
  world it leaves are the same whatever truth value \<^verbatim>\<open>verify_embeddings\<close> returns.
\<close>

theorem verification_not_fatal:
  assumes "process_profile M linkedin_url api_key use_mock selected_model s = (r, s')"
    and "VerifyEmbeddings i (Inr False) \<in> set (new_calls s s')"
  shows "(\<exists>res. GenerateInitialFacts i res \<in> set (new_calls s s') \<and>
            (\<forall>facts. res = Inr facts \<longrightarrow>
               (\<exists>u. r = Inr (success_message facts, Some (str_uuid u)) \<and>
                    active_indices s' (str_uuid u) = Some i))) \<and>
         (\<forall>b. \<exists>s''. process_profile (with_verification b M) linkedin_url api_key use_mock
                       selected_model s = (r, s'') \<and>
                  world s'' = world s' \<and> active_indices s'' = active_indices s')"
  using generates_after_failed_verification [OF assms]
    verification_result_irrelevant [OF assms(1)]
  by blast

theorem verification_not_fatal_witness:
  "VerifyEmbeddings 1 (Inr False) \<in> set (new_calls stub_start stub_session) \<and>
   (\<exists>s''. process_profile (with_verification True stub_modules) None (Some ''secret'') True
            ''ibm/granite-3-2-8b-instruct'' stub_start
          = (Inr (success_message ''1. Leon'', Some (str_uuid 5)), s'') \<and>
        world s'' = world stub_session \<and> active_indices s'' = active_indices stub_session)"
proof -
  have failed: "VerifyEmbeddings 1 (Inr False) \<in> set (new_calls stub_start stub_session)"
    by (simp add: new_calls_def initial_state_def stub_start_def stub_session_def)
  from verification_not_fatal [OF stub_run failed] failed show ?thesis
    by blast
qed

end
